theory Spec2Isabelle
  imports Main "HOL-Library.AList" "HOL-Library.Word"
begin

section \<open>Data model of packages/stores/src/core/keyring.ts\<close>

text \<open>
  The file holds two classes, \<open>KeyRingSelectablesStore\<close> (one per chain id) and
  \<open>KeyRingStore\<close>. Every method marked \<open>@flow\<close> is a generator: it runs synchronously
  up to a \<open>yield\<close>, is suspended until the yielded promise settles, and is resumed with the
  value, or terminated with the rejection, since no method of the file has a \<open>try\<close>.
  The embedding passes the state explicitly, keeps a log of the effects that leave the
  store (messages sent, window events, approvals), and takes the outcome of every awaited
  promise as an argument: \<open>Inl e\<close> is a rejection with error \<open>e\<close>, \<open>Inr v\<close> a value.
  A command is followed from its call to its end on its own: what other flows do to the
  store while it is suspended is not part of a command's model. A \<open>refresh\<close> that is
  called without being awaited contributes its synchronous part; its continuation is the
  separate function \<open>refresh_resume\<close>.
\<close>

type_synonym 'a settled = "string + 'a"

text \<open>
  Modelled from the spec: \<open>KeyRingStatus\<close> is imported from \<open>@keplr/background\<close>; the spec
  lists its values as not-loaded, empty, locked, unlocked. The source names \<open>NOTLOADED\<close>.
\<close>

datatype KeyRingStatus = NOTLOADED | EMPTY | LOCKED | UNLOCKED

text \<open>
  Modelled from the spec: \<open>BIP44\<close> (\<open>@keplr/types\<close>) and \<open>BIP44HDPath\<close>
  (\<open>@keplr/background\<close>) are imported types. The source reads \<open>path.coinType\<close> only.
\<close>

record BIP44 =
  coinType :: int

record BIP44HDPath =
  account :: int
  change :: int
  addressIndex :: int

text \<open>An element of \<open>_selectables\<close>: \<open>{ path: BIP44; bech32Address: string }\<close>.\<close>

record Selectable =
  path :: BIP44
  bech32Address :: string

text \<open>
  Modelled from the spec: an element of \<open>MultiKeyStoreInfoWithSelected\<close>
  (\<open>@keplr/background\<close>), which the spec describes as a descriptor
  \<open>{ index, kind, meta, selected }\<close>. The store never looks inside it.
\<close>

record KeyStoreInfo =
  index :: int
  kind :: string
  meta :: "(string \<times> string) list"
  selected :: bool

text \<open>What \<open>chainGetter.getChain\<close> returns, as far as this file reads it.\<close>

record ChainInfo =
  bip44 :: BIP44
  alternativeBIP44s :: "BIP44 list option"

type_synonym ChainGetter = "string \<Rightarrow> ChainInfo"

text \<open>The messages of \<open>@keplr/background\<close> that the file constructs, with their arguments.\<close>

datatype Message =
    CreateMnemonicKeyMsg string string "(string \<times> string) list" BIP44HDPath
  | CreatePrivateKeyMsg string string "(string \<times> string) list"
  | CreateLedgerKeyMsg string "(string \<times> string) list" BIP44HDPath
  | AddMnemonicKeyMsg string "(string \<times> string) list" BIP44HDPath
  | AddPrivateKeyMsg string "(string \<times> string) list"
  | AddLedgerKeyMsg "(string \<times> string) list" BIP44HDPath
  | ChangeKeyRingMsg int
  | LockKeyRingMsg
  | UnlockKeyRingMsg string
  | RestoreKeyRingMsg
  | ShowKeyRingMsg int string
  | DeleteKeyRingMsg int string
  | GetKeyRingTypeMsg
  | GetIsKeyStoreCoinTypeSetMsg string "BIP44 list"
  | SetKeyStoreCoinTypeMsg string int
  | GetMultiKeyStoreInfoMsg

text \<open>
  The interaction type passed to \<open>interactionStore\<close>; the file uses one,
  \<open>EnableKeyRingMsg.type()\<close>.
\<close>

datatype InteractionType = EnableKeyRingMsg_type

text \<open>
  An element of \<open>interactionStore.getDatas(...)\<close>; the file reads its \<open>id\<close> only.
\<close>

record InteractionWaitingData =
  interaction_id :: string

text \<open>
  The effects that leave the store, in the order they are issued:
  \<open>requester.sendMessage(BACKGROUND_PORT, msg)\<close> (the port is the same at every call),
  \<open>window.dispatchEvent(new Event(name))\<close>, and
  \<open>interactionStore.approve(type, id, result)\<close> with the result object as its list of
  entries.
\<close>

datatype Effect =
    SendMessage Message
  | DispatchEvent string
  | Approve InteractionType string "(string \<times> string) list"

record KeyRingSelectablesStore =
  isInitializing :: bool
  isKeyStoreCoinTypeSet :: bool
  selectables :: "Selectable list"

text \<open>
  \<open>selectablesMap\<close> is a JavaScript \<open>Map\<close>, iterated in insertion order: an association
  list. A resolver is identified with the entry under its chain id.
\<close>

record KeyRingStore =
  status :: KeyRingStatus
  keyRingType :: string
  multiKeyStoreInfo :: "KeyStoreInfo list"
  selectablesMap :: "(string \<times> KeyRingSelectablesStore) list"

record World = KeyRingStore +
  effects :: "Effect list"

section \<open>Effects\<close>

definition sendMessage :: "Message \<Rightarrow> World \<Rightarrow> World" where
  "sendMessage msg w = w\<lparr>effects := effects w @ [SendMessage msg]\<rparr>"

definition dispatchEvent :: "string \<Rightarrow> World \<Rightarrow> World" where
  "dispatchEvent name w = w\<lparr>effects := effects w @ [DispatchEvent name]\<rparr>"

definition approve ::
  "InteractionType \<Rightarrow> string \<Rightarrow> (string \<times> string) list \<Rightarrow> World \<Rightarrow> World" where
  "approve ty ident result w = w\<lparr>effects := effects w @ [Approve ty ident result]\<rparr>"

text \<open>\<open>Buffer.from(privateKey).toString("hex")\<close>: two lower-case digits per byte.\<close>

definition hexDigit :: "nat \<Rightarrow> char" where
  "hexDigit n = ''0123456789abcdef'' ! (n mod 16)"

definition toHex :: "8 word list \<Rightarrow> string" where
  "toHex bytes = concat (map (\<lambda>b. [hexDigit (unat b div 16), hexDigit (unat b mod 16)]) bytes)"

section \<open>KeyRingSelectablesStore\<close>

definition newSelectables :: KeyRingSelectablesStore where
  "newSelectables = \<lparr>isInitializing = False, isKeyStoreCoinTypeSet = False, selectables = []\<rparr>"

text \<open>The computed getter \<open>needSelectCoinType\<close>.\<close>

definition needSelectCoinType :: "ChainGetter \<Rightarrow> string \<Rightarrow> KeyRingSelectablesStore \<Rightarrow> bool" where
  "needSelectCoinType chainGetter chainId s =
     (let chainInfo = chainGetter chainId in
      if alternativeBIP44s chainInfo = None \<or> alternativeBIP44s chainInfo = Some []
      then False
      else \<not> isInitializing s \<and> \<not> isKeyStoreCoinTypeSet s)"

text \<open>
  \<open>refresh\<close>, lines 80 to 100: the part that runs synchronously when \<open>refresh()\<close> is called.
  It reads \<open>keyRingStore.keyRingType\<close> (the argument \<open>ty\<close>), writes the resolver, and
  returns the messages it sent: none when it returned at line 87, the candidate query when
  it is suspended at line 98.
\<close>

definition refresh_enter ::
  "ChainGetter \<Rightarrow> string \<Rightarrow> string \<Rightarrow> KeyRingSelectablesStore
     \<Rightarrow> KeyRingSelectablesStore \<times> Message list" where
  "refresh_enter chainGetter chainId ty s =
     (if ty \<noteq> ''mnemonic''
      then (s\<lparr>isInitializing := False, isKeyStoreCoinTypeSet := True, selectables := []\<rparr>, [])
      else
        (let s1 = s\<lparr>isInitializing := True\<rparr>;
             chainInfo = chainGetter chainId;
             msg = GetIsKeyStoreCoinTypeSetMsg chainId
                     (bip44 chainInfo #
                        (case alternativeBIP44s chainInfo of None \<Rightarrow> [] | Some alts \<Rightarrow> alts))
         in (s1, [msg])))"

text \<open>A write to the resolver registered under \<open>chainId\<close>.\<close>

definition onSelectables ::
  "string \<Rightarrow> (KeyRingSelectablesStore \<Rightarrow> KeyRingSelectablesStore) \<Rightarrow> World \<Rightarrow> World" where
  "onSelectables chainId f w = w\<lparr>selectablesMap := AList.map_entry chainId f (selectablesMap w)\<rparr>"

text \<open>
  \<open>selectablesMap.forEach((selectables) => selectables.refresh())\<close>: every registered
  resolver, in insertion order, runs the synchronous part of its \<open>refresh\<close>; the promise
  each call returns is dropped, so the caller does not wait for the continuations.
\<close>

fun refreshEach ::
  "ChainGetter \<Rightarrow> string \<Rightarrow> (string \<times> KeyRingSelectablesStore) list
     \<Rightarrow> (string \<times> KeyRingSelectablesStore) list \<times> Message list" where
  "refreshEach chainGetter ty [] = ([], [])"
| "refreshEach chainGetter ty ((chainId, s) # rest) =
     (let (s', msgs) = refresh_enter chainGetter chainId ty s;
          (rest', msgs') = refreshEach chainGetter ty rest
      in ((chainId, s') # rest', msgs @ msgs'))"

definition refreshAll :: "ChainGetter \<Rightarrow> World \<Rightarrow> World" where
  "refreshAll chainGetter w =
     (let (m, msgs) = refreshEach chainGetter (keyRingType w) (selectablesMap w)
      in w\<lparr>selectablesMap := m, effects := effects w @ map SendMessage msgs\<rparr>)"

section \<open>KeyRingStore\<close>

definition newKeyRingStore :: World where
  "newKeyRingStore =
     \<lparr>status = NOTLOADED, keyRingType = ''none'', multiKeyStoreInfo = [], selectablesMap = [],
      effects = []\<rparr>"

text \<open>
  The two-call shape shared by the three \<open>create...Key\<close> methods is written out in each,
  as in the source. \<open>r1\<close> settles the first \<open>sendMessage\<close>, \<open>r2\<close> the second.
\<close>

definition createMnemonicKey ::
  "string \<Rightarrow> string \<Rightarrow> (string \<times> string) list \<Rightarrow> BIP44HDPath
     \<Rightarrow> KeyRingStatus settled \<Rightarrow> string settled \<Rightarrow> World \<Rightarrow> unit settled \<times> World" where
  "createMnemonicKey mnemonic password meta' bip44HDPath r1 r2 w =
     (let w1 = sendMessage (CreateMnemonicKeyMsg mnemonic password meta' bip44HDPath) w in
      case r1 of
        Inl e \<Rightarrow> (Inl e, w1)
      | Inr result_status \<Rightarrow>
          (let w2 = w1\<lparr>status := result_status\<rparr>;
               w3 = sendMessage GetKeyRingTypeMsg w2 in
           case r2 of
             Inl e \<Rightarrow> (Inl e, w3)
           | Inr ty \<Rightarrow> (Inr (), w3\<lparr>keyRingType := ty\<rparr>)))"

definition createPrivateKey ::
  "8 word list \<Rightarrow> string \<Rightarrow> (string \<times> string) list
     \<Rightarrow> KeyRingStatus settled \<Rightarrow> string settled \<Rightarrow> World \<Rightarrow> unit settled \<times> World" where
  "createPrivateKey privateKey password meta' r1 r2 w =
     (let w1 = sendMessage (CreatePrivateKeyMsg (toHex privateKey) password meta') w in
      case r1 of
        Inl e \<Rightarrow> (Inl e, w1)
      | Inr result_status \<Rightarrow>
          (let w2 = w1\<lparr>status := result_status\<rparr>;
               w3 = sendMessage GetKeyRingTypeMsg w2 in
           case r2 of
             Inl e \<Rightarrow> (Inl e, w3)
           | Inr ty \<Rightarrow> (Inr (), w3\<lparr>keyRingType := ty\<rparr>)))"

definition createLedgerKey ::
  "string \<Rightarrow> (string \<times> string) list \<Rightarrow> BIP44HDPath
     \<Rightarrow> KeyRingStatus settled \<Rightarrow> string settled \<Rightarrow> World \<Rightarrow> unit settled \<times> World" where
  "createLedgerKey password meta' bip44HDPath r1 r2 w =
     (let w1 = sendMessage (CreateLedgerKeyMsg password meta' bip44HDPath) w in
      case r1 of
        Inl e \<Rightarrow> (Inl e, w1)
      | Inr result_status \<Rightarrow>
          (let w2 = w1\<lparr>status := result_status\<rparr>;
               w3 = sendMessage GetKeyRingTypeMsg w2 in
           case r2 of
             Inl e \<Rightarrow> (Inl e, w3)
           | Inr ty \<Rightarrow> (Inr (), w3\<lparr>keyRingType := ty\<rparr>)))"

definition addMnemonicKey ::
  "string \<Rightarrow> (string \<times> string) list \<Rightarrow> BIP44HDPath
     \<Rightarrow> KeyStoreInfo list settled \<Rightarrow> World \<Rightarrow> unit settled \<times> World" where
  "addMnemonicKey mnemonic meta' bip44HDPath r1 w =
     (let w1 = sendMessage (AddMnemonicKeyMsg mnemonic meta' bip44HDPath) w in
      case r1 of
        Inl e \<Rightarrow> (Inl e, w1)
      | Inr info \<Rightarrow> (Inr (), w1\<lparr>multiKeyStoreInfo := info\<rparr>))"

definition addPrivateKey ::
  "8 word list \<Rightarrow> (string \<times> string) list
     \<Rightarrow> KeyStoreInfo list settled \<Rightarrow> World \<Rightarrow> unit settled \<times> World" where
  "addPrivateKey privateKey meta' r1 w =
     (let w1 = sendMessage (AddPrivateKeyMsg (toHex privateKey) meta') w in
      case r1 of
        Inl e \<Rightarrow> (Inl e, w1)
      | Inr info \<Rightarrow> (Inr (), w1\<lparr>multiKeyStoreInfo := info\<rparr>))"

definition addLedgerKey ::
  "(string \<times> string) list \<Rightarrow> BIP44HDPath
     \<Rightarrow> KeyStoreInfo list settled \<Rightarrow> World \<Rightarrow> unit settled \<times> World" where
  "addLedgerKey meta' bip44HDPath r1 w =
     (let w1 = sendMessage (AddLedgerKeyMsg meta' bip44HDPath) w in
      case r1 of
        Inl e \<Rightarrow> (Inl e, w1)
      | Inr info \<Rightarrow> (Inr (), w1\<lparr>multiKeyStoreInfo := info\<rparr>))"

definition changeKeyRing ::
  "ChainGetter \<Rightarrow> int
     \<Rightarrow> KeyStoreInfo list settled \<Rightarrow> string settled \<Rightarrow> World \<Rightarrow> unit settled \<times> World" where
  "changeKeyRing chainGetter idx r1 r2 w =
     (let w1 = sendMessage (ChangeKeyRingMsg idx) w in
      case r1 of
        Inl e \<Rightarrow> (Inl e, w1)
      | Inr info \<Rightarrow>
          (let w2 = w1\<lparr>multiKeyStoreInfo := info\<rparr>;
               w3 = sendMessage GetKeyRingTypeMsg w2 in
           case r2 of
             Inl e \<Rightarrow> (Inl e, w3)
           | Inr ty \<Rightarrow>
               (let w4 = w3\<lparr>keyRingType := ty\<rparr>;
                    w5 = dispatchEvent ''keplr_keystorechange'' w4
                in (Inr (), refreshAll chainGetter w5))))"

definition lock :: "KeyRingStatus settled \<Rightarrow> World \<Rightarrow> unit settled \<times> World" where
  "lock r1 w =
     (let w1 = sendMessage LockKeyRingMsg w in
      case r1 of
        Inl e \<Rightarrow> (Inl e, w1)
      | Inr result_status \<Rightarrow> (Inr (), w1\<lparr>status := result_status\<rparr>))"

text \<open>
  The loop of \<open>unlock\<close> over the array that \<open>getDatas\<close> returned, taken as it is when
  the loop starts (\<open>interactionStore\<close> is not part of this file). Each element comes with
  the outcome of the \<open>approve\<close> promise awaited for it; a rejection ends the flow.
\<close>

fun approveEach ::
  "(InteractionWaitingData \<times> unit settled) list \<Rightarrow> World \<Rightarrow> unit settled \<times> World" where
  "approveEach [] w = (Inr (), w)"
| "approveEach ((interaction, outcome) # rest) w =
     (let w1 = approve EnableKeyRingMsg_type (interaction_id interaction) [] w in
      case outcome of
        Inl e \<Rightarrow> (Inl e, w1)
      | Inr _ \<Rightarrow> approveEach rest w1)"

text \<open>
  \<open>datas\<close> is what \<open>interactionStore.getDatas(EnableKeyRingMsg.type())\<close> returns when the
  loop starts, each element paired with the outcome of its approval.
\<close>

definition unlock ::
  "string \<Rightarrow> KeyRingStatus settled \<Rightarrow> (InteractionWaitingData \<times> unit settled) list
     \<Rightarrow> World \<Rightarrow> unit settled \<times> World" where
  "unlock password r1 datas w =
     (let w1 = sendMessage (UnlockKeyRingMsg password) w in
      case r1 of
        Inl e \<Rightarrow> (Inl e, w1)
      | Inr result_status \<Rightarrow>
          (let w2 = w1\<lparr>status := result_status\<rparr> in
           case approveEach datas w2 of
             (Inl e, w3) \<Rightarrow> (Inl e, w3)
           | (Inr _, w3) \<Rightarrow> (Inr (), dispatchEvent ''keplr_keystoreunlock'' w3)))"

text \<open>The result of \<open>RestoreKeyRingMsg\<close>: \<open>{ status, type, multiKeyStoreInfo }\<close>.\<close>

definition restore ::
  "(KeyRingStatus \<times> string \<times> KeyStoreInfo list) settled \<Rightarrow> World \<Rightarrow> unit settled \<times> World" where
  "restore r1 w =
     (let w1 = sendMessage RestoreKeyRingMsg w in
      case r1 of
        Inl e \<Rightarrow> (Inl e, w1)
      | Inr (result_status, result_type, result_info) \<Rightarrow>
          (Inr (), w1\<lparr>status := result_status, keyRingType := result_type,
                      multiKeyStoreInfo := result_info\<rparr>))"

definition showKeyRing ::
  "int \<Rightarrow> string \<Rightarrow> string settled \<Rightarrow> World \<Rightarrow> string settled \<times> World" where
  "showKeyRing idx password r1 w = (r1, sendMessage (ShowKeyRingMsg idx password) w)"

text \<open>The result of \<open>DeleteKeyRingMsg\<close>: \<open>{ status, multiKeyStoreInfo }\<close>.\<close>

definition deleteKeyRing ::
  "int \<Rightarrow> string \<Rightarrow> (KeyRingStatus \<times> KeyStoreInfo list) settled \<Rightarrow> string settled
     \<Rightarrow> World \<Rightarrow> unit settled \<times> World" where
  "deleteKeyRing idx password r1 r2 w =
     (let w1 = sendMessage (DeleteKeyRingMsg idx password) w in
      case r1 of
        Inl e \<Rightarrow> (Inl e, w1)
      | Inr (result_status, result_info) \<Rightarrow>
          (let w2 = w1\<lparr>status := result_status\<rparr>;
               w3 = w2\<lparr>multiKeyStoreInfo := result_info\<rparr>;
               w4 = sendMessage GetKeyRingTypeMsg w3 in
           case r2 of
             Inl e \<Rightarrow> (Inl e, w4)
           | Inr ty \<Rightarrow> (Inr (), w4\<lparr>keyRingType := ty\<rparr>)))"

text \<open>
  \<open>getKeyStoreSelectables\<close>: the constructor of the resolver calls \<open>refresh()\<close>, whose
  synchronous part runs before \<open>selectablesMap.set\<close>. The resolver returned is the entry
  under \<open>chainId\<close> of the world returned.
\<close>

definition getKeyStoreSelectables :: "ChainGetter \<Rightarrow> string \<Rightarrow> World \<Rightarrow> World" where
  "getKeyStoreSelectables chainGetter chainId w =
     (if map_of (selectablesMap w) chainId = None
      then
        (let (s, msgs) = refresh_enter chainGetter chainId (keyRingType w) newSelectables;
             w1 = w\<lparr>effects := effects w @ map SendMessage msgs\<rparr>
         in w1\<lparr>selectablesMap := AList.update chainId s (selectablesMap w1)\<rparr>)
      else w)"

definition setKeyStoreCoinType ::
  "ChainGetter \<Rightarrow> string \<Rightarrow> int
     \<Rightarrow> KeyRingStatus settled \<Rightarrow> KeyStoreInfo list settled \<Rightarrow> World \<Rightarrow> unit settled \<times> World" where
  "setKeyStoreCoinType chainGetter chainId coinType' r1 r2 w =
     (let w1 = sendMessage (SetKeyStoreCoinTypeMsg chainId coinType') w in
      case r1 of
        Inl e \<Rightarrow> (Inl e, w1)
      | Inr status' \<Rightarrow>
          (let w2 = sendMessage GetMultiKeyStoreInfoMsg w1 in
           case r2 of
             Inl e \<Rightarrow> (Inl e, w2)
           | Inr info \<Rightarrow>
               (let w3 = w2\<lparr>multiKeyStoreInfo := info\<rparr>;
                    w4 = w3\<lparr>status := status'\<rparr>;
                    w5 = dispatchEvent ''keplr_keystorechange'' w4
                in (Inr (), refreshAll chainGetter w5))))"

section \<open>The continuation of refresh\<close>

text \<open>
  \<open>refresh\<close>, lines 98 to 115: resumed with the outcome \<open>q\<close> of the candidate query. With
  one candidate it awaits \<open>keyRingStore.setKeyStoreCoinType\<close>, whose two calls are settled
  by \<open>r1\<close> and \<open>r2\<close>.
\<close>

definition refresh_resume ::
  "ChainGetter \<Rightarrow> string \<Rightarrow> Selectable list settled
     \<Rightarrow> KeyRingStatus settled \<Rightarrow> KeyStoreInfo list settled \<Rightarrow> World \<Rightarrow> unit settled \<times> World" where
  "refresh_resume chainGetter chainId q r1 r2 w =
     (case q of
        Inl e \<Rightarrow> (Inl e, w)
      | Inr seletables \<Rightarrow>
          (if length seletables = 0 then
             (let w1 = onSelectables chainId (\<lambda>s. s\<lparr>isKeyStoreCoinTypeSet := True\<rparr>) w
              in (Inr (), onSelectables chainId (\<lambda>s. s\<lparr>isInitializing := False\<rparr>) w1))
           else if length seletables = 1 then
             (case setKeyStoreCoinType chainGetter chainId
                     (coinType (path (seletables ! 0))) r1 r2 w of
                (Inl e, w1) \<Rightarrow> (Inl e, w1)
              | (Inr _, w1) \<Rightarrow>
                  (let w2 = onSelectables chainId (\<lambda>s. s\<lparr>isKeyStoreCoinTypeSet := True\<rparr>) w1
                   in (Inr (), onSelectables chainId (\<lambda>s. s\<lparr>isInitializing := False\<rparr>) w2)))
           else
             (let w1 = onSelectables chainId (\<lambda>s. s\<lparr>selectables := seletables\<rparr>) w;
                  w2 = onSelectables chainId (\<lambda>s. s\<lparr>isKeyStoreCoinTypeSet := False\<rparr>) w1
              in (Inr (), onSelectables chainId (\<lambda>s. s\<lparr>isInitializing := False\<rparr>) w2))))"

text \<open>
  One awaited invocation of \<open>refresh\<close> on the resolver registered under \<open>chainId\<close>
  (\<open>getKeyStoreSelectables\<close> is the only place that constructs a resolver, and it
  registers it): the synchronous part, then, when the query was sent, the continuation.
  With no resolver under \<open>chainId\<close> there is no object to call \<open>refresh\<close> on, and the
  world is returned as it is.
\<close>

definition refresh ::
  "ChainGetter \<Rightarrow> string \<Rightarrow> Selectable list settled
     \<Rightarrow> KeyRingStatus settled \<Rightarrow> KeyStoreInfo list settled \<Rightarrow> World \<Rightarrow> unit settled \<times> World" where
  "refresh chainGetter chainId q r1 r2 w =
     (case map_of (selectablesMap w) chainId of
        None \<Rightarrow> (Inr (), w)
      | Some s \<Rightarrow>
          (let (s', msgs) = refresh_enter chainGetter chainId (keyRingType w) s;
               w1 = w\<lparr>selectablesMap := AList.update chainId s' (selectablesMap w)\<rparr>;
               w2 = w1\<lparr>effects := effects w1 @ map SendMessage msgs\<rparr>
           in if msgs = [] then (Inr (), w2)
              else refresh_resume chainGetter chainId q r1 r2 w2))"

section \<open>The commands of the ordering rule, with what the store holds at each point\<close>

text \<open>
  Every effect is a synchronous call out of the store (\<open>requester.sendMessage\<close>,
  \<open>window.dispatchEvent\<close>), and \<open>selectables.refresh()\<close> is a call into a resolver, which
  first reads \<open>keyRingStore.keyRingType\<close>: at each of these points the callee can read the
  store. The functions of this section are \<open>changeKeyRing\<close>, \<open>deleteKeyRing\<close> and
  \<open>setKeyStoreCoinType\<close> once more, statement by statement, recording at each such point
  the store's mirror of the authority: \<open>status\<close>, \<open>keyRingType\<close>, \<open>multiKeyStoreInfo\<close>.
\<close>

datatype Point = AtEffect Effect | AtRefresh string

type_synonym Mirror = "KeyRingStatus \<times> string \<times> KeyStoreInfo list"

type_synonym Traced = "World \<times> (Point \<times> Mirror) list"

text \<open>What the store holds of the authority's answers.\<close>

definition mirror :: "World \<Rightarrow> Mirror" where
  "mirror w = (status w, keyRingType w, multiKeyStoreInfo w)"

text \<open>Reaching a point records the mirror as it is at that moment.\<close>

definition observe :: "Point \<Rightarrow> Traced \<Rightarrow> Traced" where
  "observe p t = (fst t, snd t @ [(p, mirror (fst t))])"

text \<open>An assignment to a field of the store.\<close>

definition assign :: "(World \<Rightarrow> World) \<Rightarrow> Traced \<Rightarrow> Traced" where
  "assign f t = (f (fst t), snd t)"

definition sendMessage_at :: "Message \<Rightarrow> Traced \<Rightarrow> Traced" where
  "sendMessage_at msg t = assign (sendMessage msg) (observe (AtEffect (SendMessage msg)) t)"

definition dispatchEvent_at :: "string \<Rightarrow> Traced \<Rightarrow> Traced" where
  "dispatchEvent_at name t = assign (dispatchEvent name) (observe (AtEffect (DispatchEvent name)) t)"

text \<open>
  \<open>selectablesMap.forEach((selectables) => selectables.refresh())\<close>: \<open>before\<close> holds the
  entries already visited, with what their refresh wrote.
\<close>

fun refreshEach_at ::
  "ChainGetter \<Rightarrow> (string \<times> KeyRingSelectablesStore) list
     \<Rightarrow> (string \<times> KeyRingSelectablesStore) list \<Rightarrow> Traced \<Rightarrow> Traced" where
  "refreshEach_at chainGetter before [] t = t"
| "refreshEach_at chainGetter before ((chainId, s) # rest) t =
     (let t1 = observe (AtRefresh chainId) t;
          (s', msgs) = refresh_enter chainGetter chainId (keyRingType (fst t1)) s;
          t2 = assign (\<lambda>w. w\<lparr>selectablesMap := before @ (chainId, s') # rest\<rparr>) t1;
          t3 = fold sendMessage_at msgs t2
      in refreshEach_at chainGetter (before @ [(chainId, s')]) rest t3)"

definition refreshAll_at :: "ChainGetter \<Rightarrow> Traced \<Rightarrow> Traced" where
  "refreshAll_at chainGetter t = refreshEach_at chainGetter [] (selectablesMap (fst t)) t"

definition changeKeyRing_at ::
  "ChainGetter \<Rightarrow> int
     \<Rightarrow> KeyStoreInfo list settled \<Rightarrow> string settled \<Rightarrow> Traced \<Rightarrow> unit settled \<times> Traced" where
  "changeKeyRing_at chainGetter idx r1 r2 t =
     (let t1 = sendMessage_at (ChangeKeyRingMsg idx) t in
      case r1 of
        Inl e \<Rightarrow> (Inl e, t1)
      | Inr info \<Rightarrow>
          (let t2 = assign (\<lambda>w. w\<lparr>multiKeyStoreInfo := info\<rparr>) t1;
               t3 = sendMessage_at GetKeyRingTypeMsg t2 in
           case r2 of
             Inl e \<Rightarrow> (Inl e, t3)
           | Inr ty \<Rightarrow>
               (let t4 = assign (\<lambda>w. w\<lparr>keyRingType := ty\<rparr>) t3;
                    t5 = dispatchEvent_at ''keplr_keystorechange'' t4
                in (Inr (), refreshAll_at chainGetter t5))))"

definition deleteKeyRing_at ::
  "int \<Rightarrow> string \<Rightarrow> (KeyRingStatus \<times> KeyStoreInfo list) settled \<Rightarrow> string settled
     \<Rightarrow> Traced \<Rightarrow> unit settled \<times> Traced" where
  "deleteKeyRing_at idx password r1 r2 t =
     (let t1 = sendMessage_at (DeleteKeyRingMsg idx password) t in
      case r1 of
        Inl e \<Rightarrow> (Inl e, t1)
      | Inr (result_status, result_info) \<Rightarrow>
          (let t2 = assign (\<lambda>w. w\<lparr>status := result_status\<rparr>) t1;
               t3 = assign (\<lambda>w. w\<lparr>multiKeyStoreInfo := result_info\<rparr>) t2;
               t4 = sendMessage_at GetKeyRingTypeMsg t3 in
           case r2 of
             Inl e \<Rightarrow> (Inl e, t4)
           | Inr ty \<Rightarrow> (Inr (), assign (\<lambda>w. w\<lparr>keyRingType := ty\<rparr>) t4)))"

definition setKeyStoreCoinType_at ::
  "ChainGetter \<Rightarrow> string \<Rightarrow> int
     \<Rightarrow> KeyRingStatus settled \<Rightarrow> KeyStoreInfo list settled \<Rightarrow> Traced \<Rightarrow> unit settled \<times> Traced" where
  "setKeyStoreCoinType_at chainGetter chainId coinType' r1 r2 t =
     (let t1 = sendMessage_at (SetKeyStoreCoinTypeMsg chainId coinType') t in
      case r1 of
        Inl e \<Rightarrow> (Inl e, t1)
      | Inr status' \<Rightarrow>
          (let t2 = sendMessage_at GetMultiKeyStoreInfoMsg t1 in
           case r2 of
             Inl e \<Rightarrow> (Inl e, t2)
           | Inr info \<Rightarrow>
               (let t3 = assign (\<lambda>w. w\<lparr>multiKeyStoreInfo := info\<rparr>) t2;
                    t4 = assign (\<lambda>w. w\<lparr>status := status'\<rparr>) t3;
                    t5 = dispatchEvent_at ''keplr_keystorechange'' t4
                in (Inr (), refreshAll_at chainGetter t5))))"

section \<open>What the claims speak about\<close>

text \<open>The observable fields of the store, without the effect log.\<close>

definition localState :: "World \<Rightarrow> KeyRingStore" where
  "localState w =
     \<lparr>status = status w, keyRingType = keyRingType w,
      multiKeyStoreInfo = multiKeyStoreInfo w, selectablesMap = selectablesMap w\<rparr>"

text \<open>The resolver registered under a chain id, if any.\<close>

definition resolver :: "World \<Rightarrow> string \<Rightarrow> KeyRingSelectablesStore option" where
  "resolver w chainId = map_of (selectablesMap w) chainId"

text \<open>The candidate query that \<open>refresh\<close> sends for a chain.\<close>

definition candidateQuery :: "ChainGetter \<Rightarrow> string \<Rightarrow> Effect" where
  "candidateQuery chainGetter chainId =
     SendMessage (GetIsKeyStoreCoinTypeSetMsg chainId
       (bip44 (chainGetter chainId) #
          (case alternativeBIP44s (chainGetter chainId) of None \<Rightarrow> [] | Some alts \<Rightarrow> alts)))"

text \<open>The approval that \<open>unlock\<close> issues for one pending interaction.\<close>

definition approvalOf :: "InteractionWaitingData \<times> unit settled \<Rightarrow> Effect" where
  "approvalOf d = Approve EnableKeyRingMsg_type (interaction_id (fst d)) []"

fun isSetKeyStoreCoinTypeCall :: "Effect \<Rightarrow> bool" where
  "isSetKeyStoreCoinTypeCall (SendMessage (SetKeyStoreCoinTypeMsg c t)) = True"
| "isSetKeyStoreCoinTypeCall e = False"

text \<open>
  A command ended with the rejection \<open>e\<close> and with the local state of \<open>w\<close>.
\<close>

definition rejectedUnchanged :: "string \<Rightarrow> World \<Rightarrow> 'a settled \<times> World \<Rightarrow> bool" where
  "rejectedUnchanged e w res = (fst res = Inl e \<and> localState (snd res) = localState w)"

text \<open>
  Every call of \<open>refresh\<close> among the observations was made with the store holding the
  mirror \<open>m\<close>.
\<close>

fun isRefreshPoint :: "Point \<Rightarrow> bool" where
  "isRefreshPoint (AtRefresh c) = True"
| "isRefreshPoint (AtEffect e) = False"

definition refreshesSee :: "Mirror \<Rightarrow> (Point \<times> Mirror) list \<Rightarrow> bool" where
  "refreshesSee m obs = list_all (\<lambda>ob. isRefreshPoint (fst ob) \<longrightarrow> snd ob = m) obs"

text \<open>
  What a \<open>forEach\<close> refresh over the chain ids leaves among the observations when the
  store holds \<open>m\<close> throughout: the call on each resolver, followed by its candidate query
  when the key ring type of \<open>m\<close> is \<open>mnemonic\<close>.
\<close>

definition refreshTrace :: "ChainGetter \<Rightarrow> Mirror \<Rightarrow> string list \<Rightarrow> (Point \<times> Mirror) list" where
  "refreshTrace chainGetter m chainIds =
     concat (map (\<lambda>c. (AtRefresh c, m) #
                        (if fst (snd m) = ''mnemonic''
                         then [(AtEffect (candidateQuery chainGetter c), m)] else []))
                 chainIds)"

text \<open>
  A resolver after the synchronous part of a refresh that read the key ring type \<open>ty\<close>.
\<close>

definition refreshed :: "string \<Rightarrow> KeyRingSelectablesStore \<Rightarrow> KeyRingSelectablesStore" where
  "refreshed ty s =
     (if ty = ''mnemonic'' then s\<lparr>isInitializing := True\<rparr>
      else \<lparr>isInitializing = False, isKeyStoreCoinTypeSet = True, selectables = []\<rparr>)"

subsection \<open>A concrete session\<close>

text \<open>
  A chain with one alternative derivation path, two candidates, and a session: the store
  is restored with a mnemonic key active, a resolver is requested for the chain, and its
  first refresh is answered.
\<close>

definition cosmosChain :: ChainGetter where
  "cosmosChain = (\<lambda>chainId. \<lparr>bip44 = \<lparr>coinType = 118\<rparr>,
                              alternativeBIP44s = Some [\<lparr>coinType = 60\<rparr>]\<rparr>)"

definition candidate118 :: Selectable where
  "candidate118 = \<lparr>path = \<lparr>coinType = 118\<rparr>, bech32Address = ''cosmos1a''\<rparr>"

definition candidate60 :: Selectable where
  "candidate60 = \<lparr>path = \<lparr>coinType = 60\<rparr>, bech32Address = ''cosmos1b''\<rparr>"

definition mnemonicStore :: KeyStoreInfo where
  "mnemonicStore = \<lparr>index = 0, kind = ''mnemonic'', meta = [], selected = True\<rparr>"

definition ledgerStore :: KeyStoreInfo where
  "ledgerStore = \<lparr>index = 1, kind = ''ledger'', meta = [], selected = False\<rparr>"

definition restoredMnemonic :: World where
  "restoredMnemonic =
     snd (restore (Inr (UNLOCKED, ''mnemonic'', [mnemonicStore, ledgerStore])) newKeyRingStore)"

definition withResolver :: World where
  "withResolver = getKeyStoreSelectables cosmosChain ''cosmoshub'' restoredMnemonic"

text \<open>The first refresh of the resolver is answered with no candidate: resolved.\<close>

definition resolvedSession :: World where
  "resolvedSession =
     snd (refresh_resume cosmosChain ''cosmoshub'' (Inr []) (Inr UNLOCKED) (Inr []) withResolver)"

text \<open>The first refresh of the resolver is answered with two candidates: ambiguous.\<close>

definition ambiguousSession :: World where
  "ambiguousSession =
     snd (refresh_resume cosmosChain ''cosmoshub'' (Inr [candidate118, candidate60])
            (Inr UNLOCKED) (Inr []) withResolver)"

text \<open>
  Then the selected mnemonic store is deleted and the authority reports the ledger store
  as the active one.
\<close>

definition afterDelete :: World where
  "afterDelete =
     snd (deleteKeyRing 0 ''password''
            (Inr (UNLOCKED, [ledgerStore\<lparr>index := 0, selected := True\<rparr>])) (Inr ''ledger'')
            ambiguousSession)"

definition threePending :: "(InteractionWaitingData \<times> unit settled) list" where
  "threePending =
     [(\<lparr>interaction_id = ''a''\<rparr>, Inr ()), (\<lparr>interaction_id = ''b''\<rparr>, Inr ()),
      (\<lparr>interaction_id = ''c''\<rparr>, Inr ())]"

section \<open>Basic facts\<close>

lemma sendMessage_fields [simp]:
  "status (sendMessage m w) = status w"
  "keyRingType (sendMessage m w) = keyRingType w"
  "multiKeyStoreInfo (sendMessage m w) = multiKeyStoreInfo w"
  "selectablesMap (sendMessage m w) = selectablesMap w"
  "effects (sendMessage m w) = effects w @ [SendMessage m]"
  by (simp_all add: sendMessage_def)

lemma dispatchEvent_fields [simp]:
  "status (dispatchEvent n w) = status w"
  "keyRingType (dispatchEvent n w) = keyRingType w"
  "multiKeyStoreInfo (dispatchEvent n w) = multiKeyStoreInfo w"
  "selectablesMap (dispatchEvent n w) = selectablesMap w"
  "effects (dispatchEvent n w) = effects w @ [DispatchEvent n]"
  by (simp_all add: dispatchEvent_def)

lemma approve_fields [simp]:
  "status (approve t i r w) = status w"
  "keyRingType (approve t i r w) = keyRingType w"
  "multiKeyStoreInfo (approve t i r w) = multiKeyStoreInfo w"
  "selectablesMap (approve t i r w) = selectablesMap w"
  "effects (approve t i r w) = effects w @ [Approve t i r]"
  by (simp_all add: approve_def)

lemma onSelectables_fields [simp]:
  "status (onSelectables c f w) = status w"
  "keyRingType (onSelectables c f w) = keyRingType w"
  "multiKeyStoreInfo (onSelectables c f w) = multiKeyStoreInfo w"
  "selectablesMap (onSelectables c f w) = AList.map_entry c f (selectablesMap w)"
  "effects (onSelectables c f w) = effects w"
  by (simp_all add: onSelectables_def)

lemma localState_sendMessage [simp]: "localState (sendMessage m w) = localState w"
  by (simp add: localState_def)

subsection \<open>Refreshing every resolver\<close>

lemma refreshEach_conv:
  "refreshEach cg ty m =
     (map (\<lambda>p. (fst p, fst (refresh_enter cg (fst p) ty (snd p)))) m,
      concat (map (\<lambda>p. snd (refresh_enter cg (fst p) ty (snd p))) m))"
  by (induction m) (auto simp: Let_def split: prod.splits)

lemma map_of_keyed_map:
  "map_of (map (\<lambda>p. (fst p, g (fst p) (snd p))) m) c = map_option (g c) (map_of m c)"
  by (induction m) auto

lemma refresh_enter_other:
  "ty \<noteq> ''mnemonic'' \<Longrightarrow> refresh_enter cg c ty s =
     (\<lparr>isInitializing = False, isKeyStoreCoinTypeSet = True, selectables = []\<rparr>, [])"
  by (simp add: refresh_enter_def)

lemma refresh_enter_mnemonic:
  "refresh_enter cg c ''mnemonic'' s =
     (s\<lparr>isInitializing := True\<rparr>,
      [GetIsKeyStoreCoinTypeSetMsg c
         (bip44 (cg c) # (case alternativeBIP44s (cg c) of None \<Rightarrow> [] | Some alts \<Rightarrow> alts))])"
  by (simp add: refresh_enter_def Let_def)

lemma refreshAll_fields:
  "status (refreshAll cg w) = status w"
  "keyRingType (refreshAll cg w) = keyRingType w"
  "multiKeyStoreInfo (refreshAll cg w) = multiKeyStoreInfo w"
  by (simp_all add: refreshAll_def Let_def split: prod.splits)

lemma refreshAll_resolver:
  "resolver (refreshAll cg w) c =
     map_option (\<lambda>s. fst (refresh_enter cg c (keyRingType w) s)) (resolver w c)"
  using map_of_keyed_map [of "\<lambda>k s. fst (refresh_enter cg k (keyRingType w) s)" "selectablesMap w" c]
  by (simp add: refreshAll_def resolver_def refreshEach_conv)

lemma refreshAll_effects_mnemonic:
  "keyRingType w = ''mnemonic'' \<Longrightarrow>
   effects (refreshAll cg w) = effects w @ map (candidateQuery cg) (map fst (selectablesMap w))"
  by (simp add: refreshAll_def refreshEach_conv refresh_enter_mnemonic candidateQuery_def
        concat_map_singleton comp_def)

lemma refreshAll_effects_other:
  "keyRingType w \<noteq> ''mnemonic'' \<Longrightarrow> effects (refreshAll cg w) = effects w"
  by (simp add: refreshAll_def refreshEach_conv refresh_enter_other)

lemma resolver_map_entry:
  "resolver (onSelectables c f w) c' =
     (if c' = c then map_option f (resolver w c') else resolver w c')"
  by (auto simp: resolver_def onSelectables_def map_of_map_entry split: option.splits)


subsection \<open>One refresh\<close>


lemma refresh_mnemonic_start:
  assumes "keyRingType w = ''mnemonic''" and "resolver w c = Some s"
  shows "refresh cg c q r1 r2 w =
           refresh_resume cg c q r1 r2
             (w\<lparr>selectablesMap := AList.update c (s\<lparr>isInitializing := True\<rparr>) (selectablesMap w),
                effects := effects w @ [candidateQuery cg c]\<rparr>)"
  using assms by (simp add: refresh_def resolver_def refresh_enter_mnemonic candidateQuery_def)

lemma map_fst_update_present:
  "map_of al k = Some v \<Longrightarrow> map fst (AList.update k v' al) = map fst al"
  by (induction al) (auto split: if_splits)

lemma setKeyStoreCoinType_ok:
  "setKeyStoreCoinType cg c t (Inr st) (Inr info) w =
     (Inr (), refreshAll cg
        (w\<lparr>multiKeyStoreInfo := info, status := st,
           effects := effects w @ [SendMessage (SetKeyStoreCoinTypeMsg c t),
                                   SendMessage GetMultiKeyStoreInfoMsg,
                                   DispatchEvent ''keplr_keystorechange'']\<rparr>))"
  by (simp add: setKeyStoreCoinType_def sendMessage_def dispatchEvent_def)

lemma count_setcalls_queries [simp]:
  "filter isSetKeyStoreCoinTypeCall (map (candidateQuery cg) ks) = []"
  by (induction ks) (auto simp: candidateQuery_def)


subsection \<open>The approval loop\<close>

lemma approveEach_resolved:
  "fst (approveEach datas w) = Inr () \<Longrightarrow>
   list_all (\<lambda>d. snd d = Inr ()) datas \<and>
   snd (approveEach datas w) = w\<lparr>effects := effects w @ map approvalOf datas\<rparr>"
proof (induction datas arbitrary: w)
  case Nil
  then show ?case by simp
next
  case (Cons d datas)
  obtain i out where d: "d = (i, out)" by (cases d)
  show ?case
  proof (cases out)
    case (Inl e)
    with Cons.prems d show ?thesis by simp
  next
    case (Inr u)
    with Cons.prems d have
      "fst (approveEach datas (approve EnableKeyRingMsg_type (interaction_id i) [] w)) = Inr ()"
      by simp
    from Cons.IH [OF this] Inr d show ?thesis
      by (simp add: approvalOf_def approve_def)
  qed
qed

lemma approveEach_rejected:
  "list_all (\<lambda>x. snd x = Inr ()) pre \<Longrightarrow>
   approveEach (pre @ (d, Inl e) # post) w =
     (Inl e, w\<lparr>effects := effects w @ map approvalOf (pre @ [(d, Inl e)])\<rparr>)"
proof (induction pre arbitrary: w)
  case Nil
  then show ?case by (simp add: approvalOf_def approve_def)
next
  case (Cons x pre)
  obtain i out where x: "x = (i, out)" by (cases x)
  with Cons.prems have out: "out = Inr ()" and rest: "list_all (\<lambda>x. snd x = Inr ()) pre"
    by simp_all
  show ?case
    using Cons.IH [OF rest, of "approve EnableKeyRingMsg_type (interaction_id i) [] w"] x out
    by (simp add: approvalOf_def approve_def)
qed

subsection \<open>Unfolding the concrete session\<close>

lemmas session_defs =
  afterDelete_def deleteKeyRing_def ambiguousSession_def resolvedSession_def withResolver_def
  restoredMnemonic_def restore_def newKeyRingStore_def getKeyStoreSelectables_def
  refresh_enter_def Let_def refresh_resume_def resolver_def newSelectables_def cosmosChain_def

subsection \<open>A rejected refresh\<close>

lemma refresh_resume_query_rejected:
  "refresh_resume cg c (Inl e) r1 r2 w = (Inl e, w)"
  by (simp add: refresh_resume_def)

lemma refresh_resume_commit_rejected:
  "fst (refresh_resume cg c (Inr [x]) (Inl e) r2 w) = Inl e"
  "selectablesMap (snd (refresh_resume cg c (Inr [x]) (Inl e) r2 w)) = selectablesMap w"
  "fst (refresh_resume cg c (Inr [x]) (Inr st) (Inl e) w) = Inl e"
  "selectablesMap (snd (refresh_resume cg c (Inr [x]) (Inr st) (Inl e) w)) = selectablesMap w"
  by (simp_all add: refresh_resume_def setKeyStoreCoinType_def)

lemma refresh_rejected_cases:
  assumes "fst (refresh cg c q r1 r2 w) = Inl e"
  shows "keyRingType w = ''mnemonic'' \<and>
         (q = Inl e \<or> (\<exists>x. q = Inr [x] \<and> (r1 = Inl e \<or> (\<exists>st. r1 = Inr st \<and> r2 = Inl e))))"
proof -
  from assms obtain s where s: "map_of (selectablesMap w) c = Some s"
    by (cases "map_of (selectablesMap w) c") (simp_all add: refresh_def)
  have m: "keyRingType w = ''mnemonic''"
    using assms s by (auto simp: refresh_def refresh_enter_def Let_def split: if_splits)
  let ?w2 = "w\<lparr>selectablesMap := AList.update c (s\<lparr>isInitializing := True\<rparr>) (selectablesMap w),
                effects := effects w @ [candidateQuery cg c]\<rparr>"
  have r: "refresh cg c q r1 r2 w = refresh_resume cg c q r1 r2 ?w2"
    using s m by (simp add: refresh_mnemonic_start resolver_def)
  have "q = Inl e \<or> (\<exists>x. q = Inr [x] \<and> (r1 = Inl e \<or> (\<exists>st. r1 = Inr st \<and> r2 = Inl e)))"
  proof (cases q)
    case (Inl e')
    with assms r show ?thesis by (simp add: refresh_resume_def)
  next
    case (Inr cands)
    show ?thesis
    proof (cases cands)
      case Nil
      with assms r Inr show ?thesis by (simp add: refresh_resume_def)
    next
      case (Cons x xs)
      show ?thesis
      proof (cases xs)
        case Nil
        with assms r Inr Cons show ?thesis
          by (cases r1; cases r2) (simp_all add: refresh_resume_def setKeyStoreCoinType_def)
      next
        case (Cons y ys)
        with assms r Inr \<open>cands = x # xs\<close> show ?thesis by (simp add: refresh_resume_def)
      qed
    qed
  qed
  with m show ?thesis by simp
qed

subsection \<open>The observations of the three commands\<close>

lemma mirror_simps [simp]:
  "mirror (sendMessage m w) = mirror w"
  "mirror (dispatchEvent n w) = mirror w"
  "mirror (w\<lparr>selectablesMap := sm\<rparr>) = mirror w"
  "mirror (w\<lparr>effects := ef\<rparr>) = mirror w"
  by (simp_all add: mirror_def)

lemma fold_sendMessage_at:
  "fold sendMessage_at msgs (w, obs) =
     (w\<lparr>effects := effects w @ map SendMessage msgs\<rparr>,
      obs @ map (\<lambda>m. (AtEffect (SendMessage m), mirror w)) msgs)"
  by (induction msgs arbitrary: w obs)
     (simp_all add: sendMessage_at_def assign_def observe_def sendMessage_def)

lemma refreshEach_at_conv:
  "selectablesMap w = before @ rest \<Longrightarrow>
   refreshEach_at cg before rest (w, obs) =
     (w\<lparr>selectablesMap := before @ fst (refreshEach cg (keyRingType w) rest),
        effects := effects w @ map SendMessage (snd (refreshEach cg (keyRingType w) rest))\<rparr>,
      obs @ refreshTrace cg (mirror w) (map fst rest))"
proof (induction rest arbitrary: w obs before)
  case Nil
  then show ?case by (simp add: refreshTrace_def)
next
  case (Cons p rest)
  obtain c s where p: "p = (c, s)" by (cases p)
  obtain s' msgs where e: "refresh_enter cg c (keyRingType w) s = (s', msgs)"
    by (cases "refresh_enter cg c (keyRingType w) s")
  obtain m' ms' where r: "refreshEach cg (keyRingType w) rest = (m', ms')"
    by (cases "refreshEach cg (keyRingType w) rest")
  let ?w3 = "w\<lparr>selectablesMap := before @ (c, s') # rest, effects := effects w @ map SendMessage msgs\<rparr>"
  have sm: "selectablesMap ?w3 = (before @ [(c, s')]) @ rest" by simp
  have msgs: "map (\<lambda>m. (AtEffect (SendMessage m), mirror w)) msgs =
                (if keyRingType w = ''mnemonic'' then [(AtEffect (candidateQuery cg c), mirror w)] else [])"
    using e by (auto simp: refresh_enter_def candidateQuery_def Let_def split: if_splits)
  show ?case
    using Cons.IH [OF sm, of "obs @ (AtRefresh c, mirror w) # map (\<lambda>m. (AtEffect (SendMessage m), mirror w)) msgs"]
      e r msgs
    by (simp add: p observe_def assign_def fold_sendMessage_at refreshTrace_def mirror_def)
qed

lemma refreshAll_at_conv:
  "refreshAll_at cg (w, obs) =
     (refreshAll cg w, obs @ refreshTrace cg (mirror w) (map fst (selectablesMap w)))"
  using refreshEach_at_conv [of w "[]" "selectablesMap w" cg obs]
  by (simp add: refreshAll_at_def refreshAll_def split: prod.splits)

lemma refreshesSee_simps [simp]:
  "refreshesSee m []"
  "refreshesSee m ((AtEffect e, m') # obs) = refreshesSee m obs"
  "refreshesSee m ((AtRefresh c, m') # obs) = (m' = m \<and> refreshesSee m obs)"
  "refreshesSee m (obs @ obs') = (refreshesSee m obs \<and> refreshesSee m obs')"
  by (simp_all add: refreshesSee_def)

lemma refreshesSee_refreshTrace [simp]: "refreshesSee m (refreshTrace cg m cs)"
  by (induction cs) (simp_all add: refreshTrace_def)

lemma mirror_refreshAll [simp]: "mirror (refreshAll cg w) = mirror w"
  by (simp add: mirror_def refreshAll_fields)

lemma refresh_enter_refreshed: "fst (refresh_enter cg c ty s) = refreshed ty s"
  by (simp add: refresh_enter_def refreshed_def Let_def)

lemma sendMessage_at_conv:
  "sendMessage_at msg (w, obs) = (sendMessage msg w, obs @ [(AtEffect (SendMessage msg), mirror w)])"
  by (simp add: sendMessage_at_def assign_def observe_def)

lemma dispatchEvent_at_conv:
  "dispatchEvent_at n (w, obs) = (dispatchEvent n w, obs @ [(AtEffect (DispatchEvent n), mirror w)])"
  by (simp add: dispatchEvent_at_def assign_def observe_def)

lemma changeKeyRing_at_conv:
  "changeKeyRing_at cg idx r1 r2 (w, obs) =
     (fst (changeKeyRing cg idx r1 r2 w), snd (changeKeyRing cg idx r1 r2 w),
      obs @ (AtEffect (SendMessage (ChangeKeyRingMsg idx)), mirror w) #
        (case r1 of Inl e \<Rightarrow> []
         | Inr info \<Rightarrow>
             (AtEffect (SendMessage GetKeyRingTypeMsg), (status w, keyRingType w, info)) #
             (case r2 of Inl e \<Rightarrow> []
              | Inr ty \<Rightarrow>
                  (AtEffect (DispatchEvent ''keplr_keystorechange''), (status w, ty, info)) #
                  refreshTrace cg (status w, ty, info) (map fst (selectablesMap w)))))"
  by (simp add: changeKeyRing_at_def changeKeyRing_def sendMessage_at_conv dispatchEvent_at_conv
        refreshAll_at_conv assign_def mirror_def split: sum.splits)

lemma setKeyStoreCoinType_at_conv:
  "setKeyStoreCoinType_at cg c t r1 r2 (w, obs) =
     (fst (setKeyStoreCoinType cg c t r1 r2 w), snd (setKeyStoreCoinType cg c t r1 r2 w),
      obs @ (AtEffect (SendMessage (SetKeyStoreCoinTypeMsg c t)), mirror w) #
        (case r1 of Inl e \<Rightarrow> []
         | Inr st \<Rightarrow>
             (AtEffect (SendMessage GetMultiKeyStoreInfoMsg), mirror w) #
             (case r2 of Inl e \<Rightarrow> []
              | Inr info \<Rightarrow>
                  (AtEffect (DispatchEvent ''keplr_keystorechange''), (st, keyRingType w, info)) #
                  refreshTrace cg (st, keyRingType w, info) (map fst (selectablesMap w)))))"
  by (simp add: setKeyStoreCoinType_at_def setKeyStoreCoinType_def sendMessage_at_conv
        dispatchEvent_at_conv refreshAll_at_conv assign_def mirror_def split: sum.splits)

lemma deleteKeyRing_at_conv:
  "deleteKeyRing_at idx pw r1 r2 (w, obs) =
     (fst (deleteKeyRing idx pw r1 r2 w), snd (deleteKeyRing idx pw r1 r2 w),
      obs @ (AtEffect (SendMessage (DeleteKeyRingMsg idx pw)), mirror w) #
        (case r1 of Inl e \<Rightarrow> []
         | Inr res \<Rightarrow>
             [(AtEffect (SendMessage GetKeyRingTypeMsg), (fst res, keyRingType w, snd res))]))"
  by (auto simp: deleteKeyRing_at_def deleteKeyRing_def sendMessage_at_conv
        assign_def mirror_def Let_def split: sum.splits prod.splits)

section \<open>Rejected commands\<close>

text \<open>
  C8. An \<open>unlock\<close> whose \<open>UnlockKeyRingMsg\<close> is rejected propagates the error, leaves
  \<open>status\<close> (and the rest of the local state) as it was, approves no pending interaction
  and does not dispatch the unlock event: the only effect is the message itself.
\<close>

theorem unlock_rejected_leaves_state:
  "fst (unlock password (Inl e) datas w) = Inl e \<and>
   status (snd (unlock password (Inl e) datas w)) = status w \<and>
   localState (snd (unlock password (Inl e) datas w)) = localState w \<and>
   effects (snd (unlock password (Inl e) datas w)) =
     effects w @ [SendMessage (UnlockKeyRingMsg password)]"
  by (simp add: unlock_def)

text \<open>
  C1, as the claim states it, fails: \<open>createMnemonicKey\<close> writes \<open>status\<close> from the first
  response before it asks for the key ring type, so a rejection of the second call leaves
  the new status in place.
\<close>

theorem createMnemonicKey_partial_write:
  "fst (createMnemonicKey ''words'' ''password'' []
          \<lparr>account = 0, change = 0, addressIndex = 0\<rparr>
          (Inr UNLOCKED) (Inl ''rejected'') newKeyRingStore) = Inl ''rejected'' \<and>
   status (snd (createMnemonicKey ''words'' ''password'' []
          \<lparr>account = 0, change = 0, addressIndex = 0\<rparr>
          (Inr UNLOCKED) (Inl ''rejected'') newKeyRingStore)) = UNLOCKED \<and>
   status newKeyRingStore = NOTLOADED"
  by (simp add: createMnemonicKey_def newKeyRingStore_def)

text \<open>
  C1, amended. When the first boundary call of a command is rejected, the command
  propagates that error and the local state is the one from before the command; for
  \<open>setKeyStoreCoinType\<close>, which writes nothing until both of its calls have answered, the
  same holds when its second call is rejected. \<open>showKeyRing\<close> never writes. When the
  second call (\<open>GetKeyRingTypeMsg\<close>) of a create method, of \<open>changeKeyRing\<close> or of
  \<open>deleteKeyRing\<close> is rejected, the command propagates that error, the fields written
  from the first response keep their new values, and \<open>keyRingType\<close> and the resolver
  registry are the ones from before.
\<close>

theorem first_call_rejected_leaves_state:
  "rejectedUnchanged e w (createMnemonicKey mnemonic password meta' hdPath (Inl e) r2 w) \<and>
   rejectedUnchanged e w (createPrivateKey privateKey password meta' (Inl e) r2 w) \<and>
   rejectedUnchanged e w (createLedgerKey password meta' hdPath (Inl e) r2 w) \<and>
   rejectedUnchanged e w (addMnemonicKey mnemonic meta' hdPath (Inl e) w) \<and>
   rejectedUnchanged e w (addPrivateKey privateKey meta' (Inl e) w) \<and>
   rejectedUnchanged e w (addLedgerKey meta' hdPath (Inl e) w) \<and>
   rejectedUnchanged e w (changeKeyRing chainGetter idx (Inl e) r2 w) \<and>
   rejectedUnchanged e w (lock (Inl e) w) \<and>
   rejectedUnchanged e w (unlock password (Inl e) datas w) \<and>
   rejectedUnchanged e w (showKeyRing idx password (Inl e) w) \<and>
   rejectedUnchanged e w (deleteKeyRing idx password (Inl e) r2 w) \<and>
   rejectedUnchanged e w (setKeyStoreCoinType chainGetter chainId coinType' (Inl e) r2' w) \<and>
   rejectedUnchanged e w (setKeyStoreCoinType chainGetter chainId coinType' (Inr st) (Inl e) w) \<and>
   rejectedUnchanged e (w\<lparr>status := st\<rparr>)
     (createMnemonicKey mnemonic password meta' hdPath (Inr st) (Inl e) w) \<and>
   rejectedUnchanged e (w\<lparr>status := st\<rparr>)
     (createPrivateKey privateKey password meta' (Inr st) (Inl e) w) \<and>
   rejectedUnchanged e (w\<lparr>status := st\<rparr>)
     (createLedgerKey password meta' hdPath (Inr st) (Inl e) w) \<and>
   rejectedUnchanged e (w\<lparr>multiKeyStoreInfo := info\<rparr>)
     (changeKeyRing chainGetter idx (Inr info) (Inl e) w) \<and>
   rejectedUnchanged e (w\<lparr>status := st, multiKeyStoreInfo := info\<rparr>)
     (deleteKeyRing idx password (Inr (st, info)) (Inl e) w)"
  by (simp add: rejectedUnchanged_def localState_def createMnemonicKey_def createPrivateKey_def
        createLedgerKey_def addMnemonicKey_def addPrivateKey_def addLedgerKey_def
        changeKeyRing_def lock_def unlock_def showKeyRing_def deleteKeyRing_def
        setKeyStoreCoinType_def)

section \<open>Successful key creation\<close>

text \<open>
  C4, as the claim states it, fails: a successful \<open>createLedgerKey\<close> also writes
  \<open>keyRingType\<close>, from the answer to \<open>GetKeyRingTypeMsg\<close>.
\<close>

theorem createLedgerKey_writes_keyRingType:
  "fst (createLedgerKey ''password'' [] \<lparr>account = 0, change = 0, addressIndex = 0\<rparr>
          (Inr UNLOCKED) (Inr ''ledger'') newKeyRingStore) = Inr () \<and>
   keyRingType (snd (createLedgerKey ''password'' [] \<lparr>account = 0, change = 0, addressIndex = 0\<rparr>
          (Inr UNLOCKED) (Inr ''ledger'') newKeyRingStore)) = ''ledger'' \<and>
   keyRingType newKeyRingStore = ''none''"
  by (simp add: createLedgerKey_def newKeyRingStore_def)

text \<open>
  C4, amended. A successful \<open>createMnemonicKey\<close>, \<open>createPrivateKey\<close> or
  \<open>createLedgerKey\<close> changes \<open>status\<close> (to the status of the first response) and
  \<open>keyRingType\<close> (to the answer of \<open>GetKeyRingTypeMsg\<close>) and nothing else of the local
  state: \<open>multiKeyStoreInfo\<close> and the resolver registry are unchanged. Its effects are the
  two messages.
\<close>

theorem createKey_success_frame:
  "createMnemonicKey mnemonic password meta' hdPath (Inr st) (Inr ty) w =
     (Inr (), w\<lparr>status := st, keyRingType := ty,
                effects := effects w @ [SendMessage (CreateMnemonicKeyMsg mnemonic password meta' hdPath),
                                        SendMessage GetKeyRingTypeMsg]\<rparr>) \<and>
   createPrivateKey privateKey password meta' (Inr st) (Inr ty) w =
     (Inr (), w\<lparr>status := st, keyRingType := ty,
                effects := effects w @ [SendMessage (CreatePrivateKeyMsg (toHex privateKey) password meta'),
                                        SendMessage GetKeyRingTypeMsg]\<rparr>) \<and>
   createLedgerKey password meta' hdPath (Inr st) (Inr ty) w =
     (Inr (), w\<lparr>status := st, keyRingType := ty,
                effects := effects w @ [SendMessage (CreateLedgerKeyMsg password meta' hdPath),
                                        SendMessage GetKeyRingTypeMsg]\<rparr>)"
  by (simp add: createMnemonicKey_def createPrivateKey_def createLedgerKey_def sendMessage_def)

section \<open>The resolver's refresh\<close>

text \<open>
  C7. While the active key ring type is not \<open>mnemonic\<close>, a refresh of a registered
  resolver ends without error and without any effect (no message is sent, whatever the
  authority would have answered: the outcomes \<open>q\<close>, \<open>r1\<close>, \<open>r2\<close> are arbitrary), and the
  resolver is resolved, with no candidates and not initializing. The same holds for the
  refresh run by the constructor when a resolver is first requested.
\<close>

theorem refresh_bypass_when_not_mnemonic:
  assumes "keyRingType w \<noteq> ''mnemonic''"
  shows "(resolver w chainId = Some s \<longrightarrow>
            fst (refresh chainGetter chainId q r1 r2 w) = Inr () \<and>
            effects (snd (refresh chainGetter chainId q r1 r2 w)) = effects w \<and>
            resolver (snd (refresh chainGetter chainId q r1 r2 w)) chainId =
              Some \<lparr>isInitializing = False, isKeyStoreCoinTypeSet = True, selectables = []\<rparr>) \<and>
         (resolver w chainId = None \<longrightarrow>
            effects (getKeyStoreSelectables chainGetter chainId w) = effects w \<and>
            resolver (getKeyStoreSelectables chainGetter chainId w) chainId =
              Some \<lparr>isInitializing = False, isKeyStoreCoinTypeSet = True, selectables = []\<rparr>)"
  using assms
  by (simp add: refresh_def getKeyStoreSelectables_def resolver_def refresh_enter_other
        update_conv')

theorem refresh_bypass_witness:
  "keyRingType afterDelete \<noteq> ''mnemonic'' \<and>
   resolver afterDelete ''cosmoshub'' =
     Some \<lparr>isInitializing = False, isKeyStoreCoinTypeSet = False,
           selectables = [candidate118, candidate60]\<rparr> \<and>
   resolver (snd (refresh cosmosChain ''cosmoshub'' (Inr [candidate118, candidate60])
                    (Inr UNLOCKED) (Inr []) afterDelete)) ''cosmoshub'' =
     Some \<lparr>isInitializing = False, isKeyStoreCoinTypeSet = True, selectables = []\<rparr> \<and>
   effects (snd (refresh cosmosChain ''cosmoshub'' (Inr [candidate118, candidate60])
                    (Inr UNLOCKED) (Inr []) afterDelete)) = effects afterDelete \<and>
   resolver newKeyRingStore ''cosmoshub'' = None \<and>
   resolver (getKeyStoreSelectables cosmosChain ''cosmoshub'' newKeyRingStore) ''cosmoshub'' =
     Some \<lparr>isInitializing = False, isKeyStoreCoinTypeSet = True, selectables = []\<rparr>"
proof -
  have a: "keyRingType afterDelete \<noteq> ''mnemonic''"
    by (simp add: afterDelete_def deleteKeyRing_def)
  have b: "resolver afterDelete ''cosmoshub'' =
     Some \<lparr>isInitializing = False, isKeyStoreCoinTypeSet = False,
           selectables = [candidate118, candidate60]\<rparr>"
    by (simp add: afterDelete_def deleteKeyRing_def ambiguousSession_def withResolver_def
        restoredMnemonic_def restore_def newKeyRingStore_def getKeyStoreSelectables_def
        refresh_enter_def Let_def refresh_resume_def resolver_def newSelectables_def)
  have c: "keyRingType newKeyRingStore \<noteq> ''mnemonic''"
    by (simp add: newKeyRingStore_def)
  have d: "resolver newKeyRingStore ''cosmoshub'' = None"
    by (simp add: newKeyRingStore_def resolver_def)
  show ?thesis
    using a b d
      refresh_bypass_when_not_mnemonic [OF a, of "''cosmoshub''" _ cosmosChain
        "Inr [candidate118, candidate60]" "Inr UNLOCKED" "Inr []"]
      refresh_bypass_when_not_mnemonic [OF c, of "''cosmoshub''" _ cosmosChain]
    by simp
qed

text \<open>
  C6, as the claim states it, fails for one candidate: the refresh then awaits
  \<open>setKeyStoreCoinType\<close>, and when that is rejected the refresh ends with the error, with
  \<open>resolved\<close> still false and \<open>initializing\<close> still true.
\<close>

theorem refresh_one_candidate_commit_rejected:
  "keyRingType ambiguousSession = ''mnemonic'' \<and>
   fst (refresh cosmosChain ''cosmoshub'' (Inr [candidate118]) (Inl ''rejected'') (Inr [])
          ambiguousSession) = Inl ''rejected'' \<and>
   resolver (snd (refresh cosmosChain ''cosmoshub'' (Inr [candidate118]) (Inl ''rejected'')
          (Inr []) ambiguousSession)) ''cosmoshub'' =
     Some \<lparr>isInitializing = True, isKeyStoreCoinTypeSet = False,
           selectables = [candidate118, candidate60]\<rparr>"
  by (simp add: ambiguousSession_def withResolver_def restoredMnemonic_def restore_def
        newKeyRingStore_def getKeyStoreSelectables_def refresh_enter_def Let_def
        refresh_resume_def resolver_def newSelectables_def cosmosChain_def refresh_def
        setKeyStoreCoinType_def)

text \<open>
  C6, amended. For a refresh of a registered resolver while the active kind is
  \<open>mnemonic\<close> and the candidate query succeeds with \<open>cands\<close>:
  with no candidate the resolver is marked resolved; with exactly one candidate, and
  provided both calls of \<open>setKeyStoreCoinType\<close> succeed, the refresh sends
  \<open>SetKeyStoreCoinTypeMsg chainId candidate.path.coinType\<close> exactly once and marks the
  resolver resolved; with two or more candidates it stores them in the order returned
  and marks the resolver unresolved. In the three cases the refresh ends without error and
  \<open>initializing\<close> is false afterwards.
\<close>

theorem refresh_mnemonic_outcomes:
  assumes "keyRingType w = ''mnemonic''" and "resolver w chainId = Some s"
  shows
    "(cands = [] \<longrightarrow>
        fst (refresh chainGetter chainId (Inr cands) r1 r2 w) = Inr () \<and>
        resolver (snd (refresh chainGetter chainId (Inr cands) r1 r2 w)) chainId =
          Some (s\<lparr>isInitializing := False, isKeyStoreCoinTypeSet := True\<rparr>) \<and>
        effects (snd (refresh chainGetter chainId (Inr cands) r1 r2 w)) =
          effects w @ [candidateQuery chainGetter chainId]) \<and>
     (length cands = 1 \<and> r1 = Inr st \<and> r2 = Inr info \<longrightarrow>
        fst (refresh chainGetter chainId (Inr cands) r1 r2 w) = Inr () \<and>
        resolver (snd (refresh chainGetter chainId (Inr cands) r1 r2 w)) chainId =
          Some (s\<lparr>isInitializing := False, isKeyStoreCoinTypeSet := True\<rparr>) \<and>
        effects (snd (refresh chainGetter chainId (Inr cands) r1 r2 w)) =
          effects w @
          [candidateQuery chainGetter chainId,
           SendMessage (SetKeyStoreCoinTypeMsg chainId (coinType (path (cands ! 0)))),
           SendMessage GetMultiKeyStoreInfoMsg,
           DispatchEvent ''keplr_keystorechange''] @
          map (candidateQuery chainGetter) (map fst (selectablesMap w)) \<and>
        length (filter isSetKeyStoreCoinTypeCall
                  (effects (snd (refresh chainGetter chainId (Inr cands) r1 r2 w)))) =
          length (filter isSetKeyStoreCoinTypeCall (effects w)) + 1) \<and>
     (2 \<le> length cands \<longrightarrow>
        fst (refresh chainGetter chainId (Inr cands) r1 r2 w) = Inr () \<and>
        resolver (snd (refresh chainGetter chainId (Inr cands) r1 r2 w)) chainId =
          Some \<lparr>isInitializing = False, isKeyStoreCoinTypeSet = False, selectables = cands\<rparr> \<and>
        effects (snd (refresh chainGetter chainId (Inr cands) r1 r2 w)) =
          effects w @ [candidateQuery chainGetter chainId])"
proof (intro conjI impI)
  note start = refresh_mnemonic_start [OF assms]
  let ?w2 = "w\<lparr>selectablesMap := AList.update chainId (s\<lparr>isInitializing := True\<rparr>) (selectablesMap w),
                effects := effects w @ [candidateQuery chainGetter chainId]\<rparr>"
  have res2: "resolver ?w2 chainId = Some (s\<lparr>isInitializing := True\<rparr>)"
    by (simp add: resolver_def update_conv')
  {
    assume "cands = []"
    then have eq: "refresh chainGetter chainId (Inr cands) r1 r2 w =
        (Inr (), onSelectables chainId (\<lambda>s. s\<lparr>isInitializing := False\<rparr>)
                   (onSelectables chainId (\<lambda>s. s\<lparr>isKeyStoreCoinTypeSet := True\<rparr>) ?w2))"
      by (simp add: start refresh_resume_def)
    show "fst (refresh chainGetter chainId (Inr cands) r1 r2 w) = Inr ()"
      by (simp add: eq)
    show "resolver (snd (refresh chainGetter chainId (Inr cands) r1 r2 w)) chainId =
          Some (s\<lparr>isInitializing := False, isKeyStoreCoinTypeSet := True\<rparr>)"
      using res2 by (simp add: eq resolver_map_entry)
    show "effects (snd (refresh chainGetter chainId (Inr cands) r1 r2 w)) =
          effects w @ [candidateQuery chainGetter chainId]"
      by (simp add: eq)
  }
  {
    assume h: "length cands = 1 \<and> r1 = Inr st \<and> r2 = Inr info"
    let ?w3 = "refreshAll chainGetter
        (?w2\<lparr>multiKeyStoreInfo := info, status := st,
           effects := effects ?w2 @
             [SendMessage (SetKeyStoreCoinTypeMsg chainId (coinType (path (cands ! 0)))),
              SendMessage GetMultiKeyStoreInfoMsg,
              DispatchEvent ''keplr_keystorechange'']\<rparr>)"
    from h have eq: "refresh chainGetter chainId (Inr cands) r1 r2 w =
        (Inr (), onSelectables chainId (\<lambda>s. s\<lparr>isInitializing := False\<rparr>)
                   (onSelectables chainId (\<lambda>s. s\<lparr>isKeyStoreCoinTypeSet := True\<rparr>) ?w3))"
      by (simp add: start refresh_resume_def setKeyStoreCoinType_ok)
    have res3: "resolver ?w3 chainId = Some (s\<lparr>isInitializing := True\<rparr>)"
      unfolding refreshAll_resolver
      using assms(1) by (simp add: resolver_def update_conv' refresh_enter_mnemonic)
    have keys: "map fst (AList.update chainId (s\<lparr>isInitializing := True\<rparr>) (selectablesMap w))
                 = map fst (selectablesMap w)"
      using assms(2) by (simp add: resolver_def map_fst_update_present)
    have eff3: "effects ?w3 = effects w @
          [candidateQuery chainGetter chainId,
           SendMessage (SetKeyStoreCoinTypeMsg chainId (coinType (path (cands ! 0)))),
           SendMessage GetMultiKeyStoreInfoMsg,
           DispatchEvent ''keplr_keystorechange''] @
          map (candidateQuery chainGetter) (map fst (selectablesMap w))"
      using assms(1) keys by (simp add: refreshAll_effects_mnemonic)
    show "fst (refresh chainGetter chainId (Inr cands) r1 r2 w) = Inr ()"
      by (simp add: eq)
    show "resolver (snd (refresh chainGetter chainId (Inr cands) r1 r2 w)) chainId =
          Some (s\<lparr>isInitializing := False, isKeyStoreCoinTypeSet := True\<rparr>)"
      using res3 by (simp add: eq resolver_map_entry)
    show e: "effects (snd (refresh chainGetter chainId (Inr cands) r1 r2 w)) =
          effects w @
          [candidateQuery chainGetter chainId,
           SendMessage (SetKeyStoreCoinTypeMsg chainId (coinType (path (cands ! 0)))),
           SendMessage GetMultiKeyStoreInfoMsg,
           DispatchEvent ''keplr_keystorechange''] @
          map (candidateQuery chainGetter) (map fst (selectablesMap w))"
      using eff3 by (simp add: eq)
    show "length (filter isSetKeyStoreCoinTypeCall
                  (effects (snd (refresh chainGetter chainId (Inr cands) r1 r2 w)))) =
          length (filter isSetKeyStoreCoinTypeCall (effects w)) + 1"
      unfolding e by (simp add: candidateQuery_def)
  }
  {
    assume "2 \<le> length cands"
    then have eq: "refresh chainGetter chainId (Inr cands) r1 r2 w =
        (Inr (), onSelectables chainId (\<lambda>s. s\<lparr>isInitializing := False\<rparr>)
                   (onSelectables chainId (\<lambda>s. s\<lparr>isKeyStoreCoinTypeSet := False\<rparr>)
                      (onSelectables chainId (\<lambda>s. s\<lparr>selectables := cands\<rparr>) ?w2)))"
      by (auto simp: start refresh_resume_def Let_def)
    show "fst (refresh chainGetter chainId (Inr cands) r1 r2 w) = Inr ()"
      by (simp add: eq)
    show "resolver (snd (refresh chainGetter chainId (Inr cands) r1 r2 w)) chainId =
          Some \<lparr>isInitializing = False, isKeyStoreCoinTypeSet = False, selectables = cands\<rparr>"
      using res2 by (simp add: eq resolver_map_entry)
    show "effects (snd (refresh chainGetter chainId (Inr cands) r1 r2 w)) =
          effects w @ [candidateQuery chainGetter chainId]"
      by (simp add: eq)
  }
qed

theorem refresh_mnemonic_outcomes_witness:
  "keyRingType resolvedSession = ''mnemonic'' \<and>
   resolver (snd (refresh cosmosChain ''cosmoshub'' (Inr []) (Inr UNLOCKED) (Inr [])
                    resolvedSession)) ''cosmoshub'' =
     Some \<lparr>isInitializing = False, isKeyStoreCoinTypeSet = True, selectables = []\<rparr> \<and>
   resolver (snd (refresh cosmosChain ''cosmoshub'' (Inr [candidate118]) (Inr UNLOCKED) (Inr [])
                    resolvedSession)) ''cosmoshub'' =
     Some \<lparr>isInitializing = False, isKeyStoreCoinTypeSet = True, selectables = []\<rparr> \<and>
   resolver (snd (refresh cosmosChain ''cosmoshub'' (Inr [candidate118, candidate60])
                    (Inr UNLOCKED) (Inr []) resolvedSession)) ''cosmoshub'' =
     Some \<lparr>isInitializing = False, isKeyStoreCoinTypeSet = False,
           selectables = [candidate118, candidate60]\<rparr>"
proof -
  have a: "keyRingType resolvedSession = ''mnemonic''"
    by (simp add: session_defs)
  have b: "resolver resolvedSession ''cosmoshub'' =
     Some \<lparr>isInitializing = False, isKeyStoreCoinTypeSet = True, selectables = []\<rparr>"
    by (simp add: session_defs)
  show ?thesis
    using a
      refresh_mnemonic_outcomes [OF a b, of "[]" cosmosChain "Inr UNLOCKED" "Inr []" UNLOCKED "[]"]
      refresh_mnemonic_outcomes [OF a b, of "[candidate118]" cosmosChain "Inr UNLOCKED" "Inr []" UNLOCKED "[]"]
      refresh_mnemonic_outcomes [OF a b, of "[candidate118, candidate60]" cosmosChain "Inr UNLOCKED" "Inr []" UNLOCKED "[]"]
    by simp
qed

section \<open>A rejected refresh\<close>

text \<open>
  C2, as the claim states it, fails: \<open>refresh\<close> sets \<open>isInitializing\<close> before the query
  and clears it only on the paths that reach line 115, so a rejected query leaves it true.
\<close>

theorem refresh_rejected_initializing_stays:
  "fst (refresh cosmosChain ''cosmoshub'' (Inl ''rejected'') (Inr UNLOCKED) (Inr [])
          resolvedSession) = Inl ''rejected'' \<and>
   map_option isInitializing (resolver resolvedSession ''cosmoshub'') = Some False \<and>
   map_option isInitializing
     (resolver (snd (refresh cosmosChain ''cosmoshub'' (Inl ''rejected'') (Inr UNLOCKED) (Inr [])
          resolvedSession)) ''cosmoshub'') = Some True"
  by (simp add: resolvedSession_def withResolver_def restoredMnemonic_def restore_def
        newKeyRingStore_def getKeyStoreSelectables_def refresh_enter_def Let_def
        refresh_resume_def resolver_def newSelectables_def cosmosChain_def refresh_def)

text \<open>
  C2, amended. While the active key ring type is \<open>mnemonic\<close>, a refresh in which a
  boundary call is rejected with \<open>e\<close> (the candidate query, or, with one candidate
  returned, the first or the second call of the \<open>setKeyStoreCoinType\<close> it awaits) ends
  with the error \<open>e\<close>; the resolver's \<open>resolved\<close> flag and candidates are the ones from
  before the refresh, and \<open>initializing\<close> is true: it is cleared only when the refresh
  completes. This holds for a refresh of a registered resolver and for the refresh that
  the constructor starts, whose continuation runs once the resolver is registered. A
  refresh ends with an error in these three cases only.
\<close>

theorem refresh_rejected_keeps_resolution:
  assumes "keyRingType w = ''mnemonic''"
  shows
    "(resolver w chainId = Some s \<longrightarrow>
        fst (refresh chainGetter chainId (Inl e) r1 r2 w) = Inl e \<and>
        resolver (snd (refresh chainGetter chainId (Inl e) r1 r2 w)) chainId =
          Some (s\<lparr>isInitializing := True\<rparr>) \<and>
        fst (refresh chainGetter chainId (Inr [x]) (Inl e) r2 w) = Inl e \<and>
        resolver (snd (refresh chainGetter chainId (Inr [x]) (Inl e) r2 w)) chainId =
          Some (s\<lparr>isInitializing := True\<rparr>) \<and>
        fst (refresh chainGetter chainId (Inr [x]) (Inr st) (Inl e) w) = Inl e \<and>
        resolver (snd (refresh chainGetter chainId (Inr [x]) (Inr st) (Inl e) w)) chainId =
          Some (s\<lparr>isInitializing := True\<rparr>)) \<and>
     (resolver w chainId = None \<longrightarrow>
        fst (refresh_resume chainGetter chainId (Inl e) r1 r2
               (getKeyStoreSelectables chainGetter chainId w)) = Inl e \<and>
        resolver (snd (refresh_resume chainGetter chainId (Inl e) r1 r2
               (getKeyStoreSelectables chainGetter chainId w))) chainId =
          Some (newSelectables\<lparr>isInitializing := True\<rparr>) \<and>
        fst (refresh_resume chainGetter chainId (Inr [x]) (Inl e) r2
               (getKeyStoreSelectables chainGetter chainId w)) = Inl e \<and>
        resolver (snd (refresh_resume chainGetter chainId (Inr [x]) (Inl e) r2
               (getKeyStoreSelectables chainGetter chainId w))) chainId =
          Some (newSelectables\<lparr>isInitializing := True\<rparr>) \<and>
        fst (refresh_resume chainGetter chainId (Inr [x]) (Inr st) (Inl e)
               (getKeyStoreSelectables chainGetter chainId w)) = Inl e \<and>
        resolver (snd (refresh_resume chainGetter chainId (Inr [x]) (Inr st) (Inl e)
               (getKeyStoreSelectables chainGetter chainId w))) chainId =
          Some (newSelectables\<lparr>isInitializing := True\<rparr>)) \<and>
     (fst (refresh chainGetter chainId q r1' r2' w) = Inl e \<longrightarrow>
        q = Inl e \<or> (\<exists>y. q = Inr [y] \<and> (r1' = Inl e \<or> (\<exists>st'. r1' = Inr st' \<and> r2' = Inl e))))"
proof (intro conjI impI)
  assume s: "resolver w chainId = Some s"
  let ?w2 = "w\<lparr>selectablesMap :=
                  AList.update chainId (s\<lparr>isInitializing := True\<rparr>) (selectablesMap w),
                effects := effects w @ [candidateQuery chainGetter chainId]\<rparr>"
  note start = refresh_mnemonic_start [OF assms s]
  have res: "resolver ?w2 chainId = Some (s\<lparr>isInitializing := True\<rparr>)"
    by (simp add: resolver_def update_conv')
  show "fst (refresh chainGetter chainId (Inl e) r1 r2 w) = Inl e"
    by (simp add: start refresh_resume_query_rejected)
  show "resolver (snd (refresh chainGetter chainId (Inl e) r1 r2 w)) chainId =
          Some (s\<lparr>isInitializing := True\<rparr>)"
    using res by (simp add: start refresh_resume_query_rejected)
  show "fst (refresh chainGetter chainId (Inr [x]) (Inl e) r2 w) = Inl e"
    by (simp add: start refresh_resume_commit_rejected)
  show "resolver (snd (refresh chainGetter chainId (Inr [x]) (Inl e) r2 w)) chainId =
          Some (s\<lparr>isInitializing := True\<rparr>)"
    using res by (simp add: start resolver_def refresh_resume_commit_rejected)
  show "fst (refresh chainGetter chainId (Inr [x]) (Inr st) (Inl e) w) = Inl e"
    by (simp add: start refresh_resume_commit_rejected)
  show "resolver (snd (refresh chainGetter chainId (Inr [x]) (Inr st) (Inl e) w)) chainId =
          Some (s\<lparr>isInitializing := True\<rparr>)"
    using res by (simp add: start resolver_def refresh_resume_commit_rejected)
next
  assume n: "resolver w chainId = None"
  let ?w1 = "getKeyStoreSelectables chainGetter chainId w"
  have res: "resolver ?w1 chainId = Some (newSelectables\<lparr>isInitializing := True\<rparr>)"
    using n assms
    by (simp add: getKeyStoreSelectables_def resolver_def refresh_enter_mnemonic update_conv')
  show "fst (refresh_resume chainGetter chainId (Inl e) r1 r2 ?w1) = Inl e"
    by (simp add: refresh_resume_query_rejected)
  show "resolver (snd (refresh_resume chainGetter chainId (Inl e) r1 r2 ?w1)) chainId =
          Some (newSelectables\<lparr>isInitializing := True\<rparr>)"
    using res by (simp add: refresh_resume_query_rejected)
  show "fst (refresh_resume chainGetter chainId (Inr [x]) (Inl e) r2 ?w1) = Inl e"
    by (simp add: refresh_resume_commit_rejected)
  show "resolver (snd (refresh_resume chainGetter chainId (Inr [x]) (Inl e) r2 ?w1)) chainId =
          Some (newSelectables\<lparr>isInitializing := True\<rparr>)"
    using res by (simp add: resolver_def refresh_resume_commit_rejected)
  show "fst (refresh_resume chainGetter chainId (Inr [x]) (Inr st) (Inl e) ?w1) = Inl e"
    by (simp add: refresh_resume_commit_rejected)
  show "resolver (snd (refresh_resume chainGetter chainId (Inr [x]) (Inr st) (Inl e) ?w1)) chainId =
          Some (newSelectables\<lparr>isInitializing := True\<rparr>)"
    using res by (simp add: resolver_def refresh_resume_commit_rejected)
next
  assume "fst (refresh chainGetter chainId q r1' r2' w) = Inl e"
  from refresh_rejected_cases [OF this]
  show "q = Inl e \<or> (\<exists>y. q = Inr [y] \<and> (r1' = Inl e \<or> (\<exists>st'. r1' = Inr st' \<and> r2' = Inl e)))"
    by simp
qed

theorem refresh_rejected_witness:
  "keyRingType resolvedSession = ''mnemonic'' \<and>
   resolver resolvedSession ''cosmoshub'' =
     Some \<lparr>isInitializing = False, isKeyStoreCoinTypeSet = True, selectables = []\<rparr> \<and>
   fst (refresh cosmosChain ''cosmoshub'' (Inr [candidate118]) (Inr UNLOCKED) (Inl ''rejected'')
          resolvedSession) = Inl ''rejected'' \<and>
   resolver (snd (refresh cosmosChain ''cosmoshub'' (Inr [candidate118]) (Inr UNLOCKED)
          (Inl ''rejected'') resolvedSession)) ''cosmoshub'' =
     Some \<lparr>isInitializing = True, isKeyStoreCoinTypeSet = True, selectables = []\<rparr> \<and>
   keyRingType restoredMnemonic = ''mnemonic'' \<and>
   resolver restoredMnemonic ''cosmoshub'' = None \<and>
   fst (refresh_resume cosmosChain ''cosmoshub'' (Inl ''rejected'') (Inr UNLOCKED) (Inr [])
          (getKeyStoreSelectables cosmosChain ''cosmoshub'' restoredMnemonic)) = Inl ''rejected'' \<and>
   resolver (snd (refresh_resume cosmosChain ''cosmoshub'' (Inl ''rejected'') (Inr UNLOCKED) (Inr [])
          (getKeyStoreSelectables cosmosChain ''cosmoshub'' restoredMnemonic))) ''cosmoshub'' =
     Some \<lparr>isInitializing = True, isKeyStoreCoinTypeSet = False, selectables = []\<rparr>"
proof -
  have a: "keyRingType resolvedSession = ''mnemonic''"
    by (simp add: session_defs)
  have b: "resolver resolvedSession ''cosmoshub'' =
     Some \<lparr>isInitializing = False, isKeyStoreCoinTypeSet = True, selectables = []\<rparr>"
    by (simp add: session_defs)
  have c: "keyRingType restoredMnemonic = ''mnemonic''"
    by (simp add: session_defs)
  have d: "resolver restoredMnemonic ''cosmoshub'' = None"
    by (simp add: session_defs)
  show ?thesis
    using a b c d
      refresh_rejected_keeps_resolution [OF a, where chainId = "''cosmoshub''"
        and chainGetter = cosmosChain and e = "''rejected''" and x = candidate118
        and st = UNLOCKED and ?r1.0 = "Inr UNLOCKED" and ?r2.0 = "Inr []"]
      refresh_rejected_keeps_resolution [OF c, where chainId = "''cosmoshub''"
        and chainGetter = cosmosChain and e = "''rejected''" and x = candidate118
        and st = UNLOCKED and ?r1.0 = "Inr UNLOCKED" and ?r2.0 = "Inr []"]
    by (simp add: newSelectables_def)
qed

section \<open>Ordering of write-back and refresh\<close>

text \<open>
  C9. In every execution of \<open>changeKeyRing\<close>, \<open>setKeyStoreCoinType\<close> and \<open>deleteKeyRing\<close>,
  whatever the outcomes of its boundary calls, every call of \<open>refresh\<close> that the command
  makes finds the store holding the \<open>status\<close>, \<open>keyRingType\<close> and \<open>multiKeyStoreInfo\<close>
  that the command ends with: nothing is written back after a refresh was triggered.
  In a successful \<open>changeKeyRing\<close> the observations are the two messages and the change
  event, then the refresh of every registered resolver, in registration order, each made
  with the new \<open>multiKeyStoreInfo\<close> and the new \<open>keyRingType\<close> in place, and each resolver
  ends as a refresh that read the new type leaves it. The same holds for a successful
  \<open>setKeyStoreCoinType\<close> with the new \<open>multiKeyStoreInfo\<close> and \<open>status\<close>. In a
  successful \<open>deleteKeyRing\<close> the new \<open>status\<close> and \<open>multiKeyStoreInfo\<close> are in place when
  the key ring type is asked for, and the command ends with the three fields written.
  On the store the functions with observations agree with the commands as modelled
  before.
\<close>

theorem refresh_after_write_back:
  "refreshesSee (mirror (fst (snd (changeKeyRing_at chainGetter idx r1 r2 (w, obs)))))
     (drop (length obs) (snd (snd (changeKeyRing_at chainGetter idx r1 r2 (w, obs))))) \<and>
   refreshesSee (mirror (fst (snd (setKeyStoreCoinType_at chainGetter chainId coinType' q1 q2 (w, obs)))))
     (drop (length obs) (snd (snd (setKeyStoreCoinType_at chainGetter chainId coinType' q1 q2 (w, obs))))) \<and>
   refreshesSee (mirror (fst (snd (deleteKeyRing_at idx password d1 d2 (w, obs)))))
     (drop (length obs) (snd (snd (deleteKeyRing_at idx password d1 d2 (w, obs))))) \<and>
   changeKeyRing_at chainGetter idx (Inr info) (Inr ty) (w, obs) =
     (Inr (), snd (changeKeyRing chainGetter idx (Inr info) (Inr ty) w),
      obs @ [(AtEffect (SendMessage (ChangeKeyRingMsg idx)), (status w, keyRingType w, multiKeyStoreInfo w)),
             (AtEffect (SendMessage GetKeyRingTypeMsg), (status w, keyRingType w, info)),
             (AtEffect (DispatchEvent ''keplr_keystorechange''), (status w, ty, info))] @
            refreshTrace chainGetter (status w, ty, info) (map fst (selectablesMap w))) \<and>
   mirror (snd (changeKeyRing chainGetter idx (Inr info) (Inr ty) w)) = (status w, ty, info) \<and>
   resolver (snd (changeKeyRing chainGetter idx (Inr info) (Inr ty) w)) c =
     map_option (refreshed ty) (resolver w c) \<and>
   setKeyStoreCoinType_at chainGetter chainId coinType' (Inr st) (Inr info) (w, obs) =
     (Inr (), snd (setKeyStoreCoinType chainGetter chainId coinType' (Inr st) (Inr info) w),
      obs @ [(AtEffect (SendMessage (SetKeyStoreCoinTypeMsg chainId coinType')),
                (status w, keyRingType w, multiKeyStoreInfo w)),
             (AtEffect (SendMessage GetMultiKeyStoreInfoMsg),
                (status w, keyRingType w, multiKeyStoreInfo w)),
             (AtEffect (DispatchEvent ''keplr_keystorechange''), (st, keyRingType w, info))] @
            refreshTrace chainGetter (st, keyRingType w, info) (map fst (selectablesMap w))) \<and>
   mirror (snd (setKeyStoreCoinType chainGetter chainId coinType' (Inr st) (Inr info) w)) =
     (st, keyRingType w, info) \<and>
   resolver (snd (setKeyStoreCoinType chainGetter chainId coinType' (Inr st) (Inr info) w)) c =
     map_option (refreshed (keyRingType w)) (resolver w c) \<and>
   fst (deleteKeyRing_at idx password (Inr (st, info)) (Inr ty) (w, obs)) = Inr () \<and>
   fst (snd (deleteKeyRing_at idx password (Inr (st, info)) (Inr ty) (w, obs))) =
     snd (deleteKeyRing idx password (Inr (st, info)) (Inr ty) w) \<and>
   take 2 (drop (length obs)
      (snd (snd (deleteKeyRing_at idx password (Inr (st, info)) (Inr ty) (w, obs))))) =
     [(AtEffect (SendMessage (DeleteKeyRingMsg idx password)),
         (status w, keyRingType w, multiKeyStoreInfo w)),
      (AtEffect (SendMessage GetKeyRingTypeMsg), (st, keyRingType w, info))] \<and>
   mirror (snd (deleteKeyRing idx password (Inr (st, info)) (Inr ty) w)) = (st, ty, info)"
proof (intro conjI)
  show "refreshesSee (mirror (fst (snd (changeKeyRing_at chainGetter idx r1 r2 (w, obs)))))
     (drop (length obs) (snd (snd (changeKeyRing_at chainGetter idx r1 r2 (w, obs)))))"
    by (cases r1; cases r2)
       (simp_all add: changeKeyRing_at_conv changeKeyRing_def mirror_def refreshAll_fields)
  show "refreshesSee (mirror (fst (snd (setKeyStoreCoinType_at chainGetter chainId coinType' q1 q2 (w, obs)))))
     (drop (length obs) (snd (snd (setKeyStoreCoinType_at chainGetter chainId coinType' q1 q2 (w, obs)))))"
    by (cases q1; cases q2)
       (simp_all add: setKeyStoreCoinType_at_conv setKeyStoreCoinType_def mirror_def refreshAll_fields)
  show "refreshesSee (mirror (fst (snd (deleteKeyRing_at idx password d1 d2 (w, obs)))))
     (drop (length obs) (snd (snd (deleteKeyRing_at idx password d1 d2 (w, obs)))))"
    by (cases d1) (simp_all add: deleteKeyRing_at_conv)
  show "resolver (snd (changeKeyRing chainGetter idx (Inr info) (Inr ty) w)) c =
     map_option (refreshed ty) (resolver w c)"
    by (simp add: changeKeyRing_def refreshAll_resolver refresh_enter_refreshed)
       (simp add: resolver_def)
  show "resolver (snd (setKeyStoreCoinType chainGetter chainId coinType' (Inr st) (Inr info) w)) c =
     map_option (refreshed (keyRingType w)) (resolver w c)"
    by (simp add: setKeyStoreCoinType_def refreshAll_resolver refresh_enter_refreshed)
       (simp add: resolver_def)
qed (simp_all add: changeKeyRing_at_conv setKeyStoreCoinType_at_conv deleteKeyRing_at_conv
       changeKeyRing_def setKeyStoreCoinType_def deleteKeyRing_def mirror_def refreshAll_fields)

theorem refresh_after_write_back_witness:
  "snd (snd (setKeyStoreCoinType_at cosmosChain ''cosmoshub'' 118 (Inr LOCKED)
               (Inr [ledgerStore]) (ambiguousSession, []))) =
     [(AtEffect (SendMessage (SetKeyStoreCoinTypeMsg ''cosmoshub'' 118)),
         (UNLOCKED, ''mnemonic'', [mnemonicStore, ledgerStore])),
      (AtEffect (SendMessage GetMultiKeyStoreInfoMsg),
         (UNLOCKED, ''mnemonic'', [mnemonicStore, ledgerStore])),
      (AtEffect (DispatchEvent ''keplr_keystorechange''), (LOCKED, ''mnemonic'', [ledgerStore])),
      (AtRefresh ''cosmoshub'', (LOCKED, ''mnemonic'', [ledgerStore])),
      (AtEffect (candidateQuery cosmosChain ''cosmoshub''), (LOCKED, ''mnemonic'', [ledgerStore]))] \<and>
   snd (snd (changeKeyRing_at cosmosChain 1 (Inr [ledgerStore]) (Inr ''ledger'')
               (ambiguousSession, []))) =
     [(AtEffect (SendMessage (ChangeKeyRingMsg 1)),
         (UNLOCKED, ''mnemonic'', [mnemonicStore, ledgerStore])),
      (AtEffect (SendMessage GetKeyRingTypeMsg), (UNLOCKED, ''mnemonic'', [ledgerStore])),
      (AtEffect (DispatchEvent ''keplr_keystorechange''), (UNLOCKED, ''ledger'', [ledgerStore])),
      (AtRefresh ''cosmoshub'', (UNLOCKED, ''ledger'', [ledgerStore]))] \<and>
   resolver (snd (changeKeyRing cosmosChain 1 (Inr [ledgerStore]) (Inr ''ledger'')
               ambiguousSession)) ''cosmoshub'' =
     Some \<lparr>isInitializing = False, isKeyStoreCoinTypeSet = True, selectables = []\<rparr> \<and>
   refreshesSee (LOCKED, ''mnemonic'', [ledgerStore])
     (snd (snd (setKeyStoreCoinType_at cosmosChain ''cosmoshub'' 118 (Inr LOCKED)
               (Inr [ledgerStore]) (ambiguousSession, []))))"
proof -
  have a: "status ambiguousSession = UNLOCKED" "keyRingType ambiguousSession = ''mnemonic''"
    "multiKeyStoreInfo ambiguousSession = [mnemonicStore, ledgerStore]"
    "map fst (selectablesMap ambiguousSession) = [''cosmoshub'']"
    "resolver ambiguousSession ''cosmoshub'' =
       Some \<lparr>isInitializing = False, isKeyStoreCoinTypeSet = False,
             selectables = [candidate118, candidate60]\<rparr>"
    by (simp_all add: session_defs)
  show ?thesis
    using a
      refresh_after_write_back [where chainGetter = cosmosChain and chainId = "''cosmoshub''"
        and coinType' = 118 and ?q1.0 = "Inr LOCKED" and ?q2.0 = "Inr [ledgerStore]"
        and st = LOCKED and info = "[ledgerStore]" and ty = "''ledger''" and idx = 1
        and w = ambiguousSession and obs = "[]" and c = "''cosmoshub''"]
    by (simp add: refreshTrace_def refreshed_def mirror_def)
qed

section \<open>Unlock\<close>

text \<open>
  C5. When \<open>unlock\<close> succeeds, every approval was resolved, and the effects of the command
  are, in this order: the unlock message, one approval with the empty payload \<open>{}\<close> per
  pending enable-key-ring interaction, in the order of the array that \<open>getDatas\<close>
  returned, and then the unlock event.
\<close>

theorem unlock_approves_all_then_signals:
  assumes "fst (unlock password r1 datas w) = Inr ()"
  shows "list_all (\<lambda>d. snd d = Inr ()) datas \<and>
         effects (snd (unlock password r1 datas w)) =
           effects w @ [SendMessage (UnlockKeyRingMsg password)] @ map approvalOf datas @
           [DispatchEvent ''keplr_keystoreunlock'']"
proof -
  from assms obtain st where r1: "r1 = Inr st"
    by (cases r1) (simp_all add: unlock_def)
  let ?w2 = "(sendMessage (UnlockKeyRingMsg password) w)\<lparr>status := st\<rparr>"
  from assms r1 have ok: "fst (approveEach datas ?w2) = Inr ()"
    by (simp add: unlock_def Let_def split: prod.splits sum.splits)
  from approveEach_resolved [OF ok]
  have all: "list_all (\<lambda>d. snd d = Inr ()) datas"
    and w3: "snd (approveEach datas ?w2) = ?w2\<lparr>effects := effects ?w2 @ map approvalOf datas\<rparr>"
    by simp_all
  have "effects (snd (unlock password r1 datas w)) =
          effects (snd (approveEach datas ?w2)) @ [DispatchEvent ''keplr_keystoreunlock'']"
    using ok r1 by (auto simp: unlock_def Let_def split: prod.splits sum.splits)
  with all w3 show ?thesis by simp
qed

theorem unlock_approves_all_witness:
  "fst (unlock ''password'' (Inr UNLOCKED) threePending newKeyRingStore) = Inr () \<and>
   effects (snd (unlock ''password'' (Inr UNLOCKED) threePending newKeyRingStore)) =
     [SendMessage (UnlockKeyRingMsg ''password''),
      Approve EnableKeyRingMsg_type ''a'' [],
      Approve EnableKeyRingMsg_type ''b'' [],
      Approve EnableKeyRingMsg_type ''c'' [],
      DispatchEvent ''keplr_keystoreunlock'']"
proof -
  have a: "fst (unlock ''password'' (Inr UNLOCKED) threePending newKeyRingStore) = Inr ()"
    by (simp add: unlock_def threePending_def)
  show ?thesis
    using a unlock_approves_all_then_signals [OF a]
    by (simp add: threePending_def approvalOf_def newKeyRingStore_def)
qed

text \<open>
  C10. When the unlock message is answered with status \<open>st\<close> and the approvals before
  some interaction \<open>d\<close> are resolved while the approval of \<open>d\<close> is rejected with \<open>e\<close>,
  \<open>unlock\<close> propagates \<open>e\<close>, \<open>status\<close> is already \<open>st\<close>, the approvals issued are
  those up to and including \<open>d\<close>, and the unlock event is not dispatched.
\<close>

theorem unlock_approval_rejected:
  assumes "list_all (\<lambda>x. snd x = Inr ()) pre"
  shows "fst (unlock password (Inr st) (pre @ (d, Inl e) # post) w) = Inl e \<and>
         status (snd (unlock password (Inr st) (pre @ (d, Inl e) # post) w)) = st \<and>
         effects (snd (unlock password (Inr st) (pre @ (d, Inl e) # post) w)) =
           effects w @ [SendMessage (UnlockKeyRingMsg password)] @
           map approvalOf (pre @ [(d, Inl e)]) \<and>
         DispatchEvent ''keplr_keystoreunlock'' \<notin>
           set ([SendMessage (UnlockKeyRingMsg password)] @ map approvalOf (pre @ [(d, Inl e)]))"
  using approveEach_rejected [OF assms, of d e post
      "(sendMessage (UnlockKeyRingMsg password) w)\<lparr>status := st\<rparr>"]
  by (auto simp: unlock_def approvalOf_def)

theorem unlock_approval_rejected_witness:
  "fst (unlock ''password'' (Inr UNLOCKED)
          [(\<lparr>interaction_id = ''a''\<rparr>, Inr ()), (\<lparr>interaction_id = ''b''\<rparr>, Inl ''denied''),
           (\<lparr>interaction_id = ''c''\<rparr>, Inr ())] newKeyRingStore) = Inl ''denied'' \<and>
   status (snd (unlock ''password'' (Inr UNLOCKED)
          [(\<lparr>interaction_id = ''a''\<rparr>, Inr ()), (\<lparr>interaction_id = ''b''\<rparr>, Inl ''denied''),
           (\<lparr>interaction_id = ''c''\<rparr>, Inr ())] newKeyRingStore)) = UNLOCKED \<and>
   status newKeyRingStore = NOTLOADED \<and>
   effects (snd (unlock ''password'' (Inr UNLOCKED)
          [(\<lparr>interaction_id = ''a''\<rparr>, Inr ()), (\<lparr>interaction_id = ''b''\<rparr>, Inl ''denied''),
           (\<lparr>interaction_id = ''c''\<rparr>, Inr ())] newKeyRingStore)) =
     [SendMessage (UnlockKeyRingMsg ''password''),
      Approve EnableKeyRingMsg_type ''a'' [],
      Approve EnableKeyRingMsg_type ''b'' []]"
proof -
  have a: "list_all (\<lambda>x. snd x = Inr ()) [(\<lparr>interaction_id = ''a''\<rparr>, Inr ())]"
    by simp
  show ?thesis
    using unlock_approval_rejected [OF a, of "''password''" UNLOCKED
        "\<lparr>interaction_id = ''b''\<rparr>" "''denied''" "[(\<lparr>interaction_id = ''c''\<rparr>, Inr ())]"
        newKeyRingStore]
    by (simp add: approvalOf_def newKeyRingStore_def)
qed

section \<open>Deleting the selected mnemonic store\<close>

text \<open>
  C3. The invariant (key ring type not \<open>mnemonic\<close> implies every resolver resolved, with
  no candidates) does not survive \<open>deleteKeyRing\<close>: after the session with an ambiguous
  resolver deletes its mnemonic store and the authority reports \<open>ledger\<close>, the resolver
  still holds its two candidates unresolved, and \<open>needSelectCoinType\<close> is true for a ledger
  key. \<open>changeKeyRing\<close> to the same ledger store, which refreshes the resolvers, leaves the
  resolver resolved.
\<close>

theorem deleteKeyRing_leaves_stale_resolver:
  "keyRingType ambiguousSession = ''mnemonic'' \<and>
   fst (deleteKeyRing 0 ''password''
          (Inr (UNLOCKED, [ledgerStore\<lparr>index := 0, selected := True\<rparr>])) (Inr ''ledger'')
          ambiguousSession) = Inr () \<and>
   keyRingType afterDelete = ''ledger'' \<and>
   resolver afterDelete ''cosmoshub'' =
     Some \<lparr>isInitializing = False, isKeyStoreCoinTypeSet = False,
           selectables = [candidate118, candidate60]\<rparr> \<and>
   needSelectCoinType cosmosChain ''cosmoshub''
     \<lparr>isInitializing = False, isKeyStoreCoinTypeSet = False,
       selectables = [candidate118, candidate60]\<rparr> \<and>
   resolver (snd (changeKeyRing cosmosChain 1
                    (Inr [mnemonicStore\<lparr>selected := False\<rparr>, ledgerStore\<lparr>selected := True\<rparr>])
                    (Inr ''ledger'') ambiguousSession)) ''cosmoshub'' =
     Some \<lparr>isInitializing = False, isKeyStoreCoinTypeSet = True, selectables = []\<rparr>"
  by (simp add: session_defs needSelectCoinType_def changeKeyRing_def refreshAll_def)

end
